theory Spec2Isabelle
  imports Main "HOL-Library.AList"
begin

section \<open>Errors\<close>

text \<open>
  Every \<^verbatim>\<open>throw\<close> of the sources is a value. \<open>TypeError\<close> is what the JavaScript
  runtime raises when a property of \<^verbatim>\<open>undefined\<close> or \<^verbatim>\<open>null\<close> is read, or when
  \<^verbatim>\<open>undefined\<close> is iterated; \<open>InvalidDirectiveError\<close> carries the message of the
  transformer's own exception.
\<close>

datatype error = TypeError | InvalidDirectiveError string | OtherError string

section \<open>Template references (getTemplateReferences)\<close>

subsection \<open>JSON values as the walk sees them\<close>

text \<open>
  A template node after \<^verbatim>\<open>toJSON\<close>. An object is the list of its own properties in
  the order of \<^verbatim>\<open>Object.keys\<close>; numbers are integers,
  and as a property key an integer is its decimal rendering, which is what JavaScript
  prints for integers of magnitude below ten to the power 21; \<open>JUndefined\<close> is the value
  \<^verbatim>\<open>undefined\<close>, which is also what reading an absent property gives.
\<close>

datatype json =
    JUndefined
  | JNull
  | JBool bool
  | JNum int
  | JStr string
  | JArr "json list"
  | JObj "(string \<times> json) list"

text \<open>JavaScript truthiness, as used by \<^verbatim>\<open>if (refValue)\<close>.\<close>

fun truthy :: "json \<Rightarrow> bool" where
  "truthy JUndefined = False"
| "truthy JNull = False"
| "truthy (JBool b) = b"
| "truthy (JNum n) = (n \<noteq> 0)"
| "truthy (JStr s) = (s \<noteq> [])"
| "truthy (JArr xs) = True"
| "truthy (JObj fs) = True"

text \<open>Decimal rendering of an array index, the template string \<^verbatim>\<open>`${i}`\<close>.\<close>

definition digit_char :: "nat \<Rightarrow> char" where
  "digit_char d = ''0123456789'' ! d"

function string_of_nat :: "nat \<Rightarrow> string" where
  "string_of_nat n =
     (if n < 10 then [digit_char n] else string_of_nat (n div 10) @ [digit_char (n mod 10)])"
  by pat_completeness auto
termination
  by (relation "measure id") auto

declare string_of_nat.simps [simp del]

definition string_of_int :: "int \<Rightarrow> string" where
  "string_of_int i = (if i < 0 then CHR ''-'' # string_of_nat (nat (- i)) else string_of_nat (nat i))"

text \<open>\<^verbatim>\<open>Array.prototype.join\<close> on strings.\<close>

fun join :: "string \<Rightarrow> string list \<Rightarrow> string" where
  "join sep [] = []"
| "join sep [x] = x"
| "join sep (x # y # ys) = x @ sep @ join sep (y # ys)"

text \<open>\<^verbatim>\<open>jsonNode[key]\<close>: the first property of that name, \<^verbatim>\<open>undefined\<close> if there is none.\<close>

definition getProp :: "(string \<times> json) list \<Rightarrow> string \<Rightarrow> json" where
  "getProp fs key = (case map_of fs key of Some v \<Rightarrow> v | None \<Rightarrow> JUndefined)"

text \<open>
  The conversion of a value to a property key (\<^verbatim>\<open>{ [refValue]: ... }\<close>): a string is
  itself, an array is its elements joined with a comma (\<^verbatim>\<open>null\<close> and \<^verbatim>\<open>undefined\<close>
  elements as the empty string), any other object is \<^verbatim>\<open>[object Object]\<close>.
\<close>

fun toPropertyKey :: "json \<Rightarrow> string"
  and elementStrings :: "json list \<Rightarrow> string list"
where
  "toPropertyKey JUndefined = ''undefined''"
| "toPropertyKey JNull = ''null''"
| "toPropertyKey (JBool b) = (if b then ''true'' else ''false'')"
| "toPropertyKey (JNum n) = string_of_int n"
| "toPropertyKey (JStr s) = s"
| "toPropertyKey (JArr xs) = join '','' (elementStrings xs)"
| "toPropertyKey (JObj fs) = ''[object Object]''"
| "elementStrings [] = []"
| "elementStrings (JUndefined # xs) = [] # elementStrings xs"
| "elementStrings (JNull # xs) = [] # elementStrings xs"
| "elementStrings (x # xs) = toPropertyKey x # elementStrings xs"

text \<open>
  \<^verbatim>\<open>getAtt[0]\<close>: the first element of an array, the first character of a string, the
  property \<^verbatim>\<open>"0"\<close> of an object, \<^verbatim>\<open>undefined\<close> on anything else.
\<close>

fun index0 :: "json \<Rightarrow> json" where
  "index0 (JArr (x # xs)) = x"
| "index0 (JStr (c # cs)) = JStr [c]"
| "index0 (JObj fs) = getProp fs ''0''"
| "index0 v = JUndefined"

subsection \<open>Reference maps\<close>

text \<open>
  A \<^verbatim>\<open>ReferenceMap\<close> is a JavaScript object from logical ids to lists of paths: the
  list of its own properties, each key once, in insertion order (\<^verbatim>\<open>Object.keys\<close> lists
  integer-like keys before the others; the values per key do not depend on it). The
  objects come from object literals, so besides their own properties they inherit the
  properties of \<^verbatim>\<open>Object.prototype\<close>.
\<close>

type_synonym ReferenceMap = "(string \<times> string list list) list"

text \<open>
  The property names of \<^verbatim>\<open>Object.prototype\<close>. Each of them holds a function, except
  \<^verbatim>\<open>__proto__\<close>, an accessor that gives \<^verbatim>\<open>Object.prototype\<close> itself: read through an
  object that has no own property of that name, every one is a truthy value without a
  method \<^verbatim>\<open>concat\<close>.
\<close>

definition inheritedProperties :: "string list" where
  "inheritedProperties =
     [''constructor'', ''__defineGetter__'', ''__defineSetter__'', ''hasOwnProperty'',
      ''__lookupGetter__'', ''__lookupSetter__'', ''isPrototypeOf'', ''propertyIsEnumerable'',
      ''toString'', ''valueOf'', ''__proto__'', ''toLocaleString'']"

text \<open>\<^verbatim>\<open>b[bKey]\<close> for an own key of \<open>b\<close>.\<close>

definition valueAt :: "ReferenceMap \<Rightarrow> string \<Rightarrow> string list list" where
  "valueAt b k = (case map_of b k of Some v \<Rightarrow> v | None \<Rightarrow> [])"

text \<open>
  One iteration of the loop of \<^verbatim>\<open>mergeReferenceMaps\<close>. \<^verbatim>\<open>a[bKey]\<close> is the own property
  of that name when \<open>a\<close> has one: an array, which is truthy also when empty, and the two
  arrays are concatenated. When \<open>a\<close> has none and the name is a property of
  \<^verbatim>\<open>Object.prototype\<close>, \<^verbatim>\<open>a[bKey]\<close> is the inherited value: it is truthy, so the first
  branch is taken, and \<^verbatim>\<open>a[bKey].concat\<close> is \<^verbatim>\<open>undefined\<close>, so the call raises
  \<^verbatim>\<open>TypeError\<close>. Otherwise \<^verbatim>\<open>a[bKey]\<close> is \<^verbatim>\<open>undefined\<close> and the property is created as the
  last key. The source updates \<open>a\<close> in place and returns it; the model returns the
  updated object.
\<close>

definition mergeKey :: "ReferenceMap \<Rightarrow> string \<Rightarrow> ReferenceMap \<Rightarrow> error + ReferenceMap" where
  "mergeKey b bKey a =
     (case map_of a bKey of
        Some av \<Rightarrow> Inr (AList.update bKey (av @ valueAt b bKey) a)
      | None \<Rightarrow>
          if bKey \<in> set inheritedProperties then Inl TypeError
          else Inr (AList.update bKey (valueAt b bKey) a))"

text \<open>The loop \<^verbatim>\<open>for (const bKey of bKeys)\<close>; an exception ends it.\<close>

fun mergeKeys :: "ReferenceMap \<Rightarrow> string list \<Rightarrow> ReferenceMap \<Rightarrow> error + ReferenceMap" where
  "mergeKeys b [] a = Inr a"
| "mergeKeys b (bKey # bKeys) a =
     (case mergeKey b bKey a of
        Inl e \<Rightarrow> Inl e
      | Inr a' \<Rightarrow> mergeKeys b bKeys a')"

definition mergeReferenceMaps :: "ReferenceMap \<Rightarrow> ReferenceMap \<Rightarrow> error + ReferenceMap" where
  "mergeReferenceMaps a b = mergeKeys b (map fst b) a"

subsection \<open>The walk\<close>

text \<open>
  \<^verbatim>\<open>typeof jsonNode === 'object'\<close> holds for objects, arrays and \<^verbatim>\<open>null\<close>; reading
  \<^verbatim>\<open>null["Ref"]\<close> raises. An array has no property \<^verbatim>\<open>Ref\<close> or \<^verbatim>\<open>Fn::GetAtt\<close> and its
  keys are its indices, so it is walked by the first branch and the
  \<^verbatim>\<open>Array.isArray\<close> branch is never reached. The references of each child are merged
  into the object \<^verbatim>\<open>refsFromAllKeys\<close>, which starts as \<^verbatim>\<open>{}\<close>; an exception of the merge
  leaves the walk.
\<close>

fun walk :: "json \<Rightarrow> string list \<Rightarrow> error + ReferenceMap"
  and walkKeys :: "(string \<times> json) list \<Rightarrow> string list \<Rightarrow> ReferenceMap \<Rightarrow> error + ReferenceMap"
  and walkItems :: "json list \<Rightarrow> nat \<Rightarrow> string list \<Rightarrow> ReferenceMap \<Rightarrow> error + ReferenceMap"
where
  "walk JUndefined path = Inr []"
| "walk JNull path = Inl TypeError"
| "walk (JBool b) path = Inr []"
| "walk (JNum n) path = Inr []"
| "walk (JStr s) path = Inr []"
| "walk (JObj fs) path =
     (if truthy (getProp fs ''Ref'') then Inr [(toPropertyKey (getProp fs ''Ref''), [path])]
      else if truthy (getProp fs ''Fn::GetAtt'')
        then Inr [(toPropertyKey (index0 (getProp fs ''Fn::GetAtt'')), [path])]
      else walkKeys fs path [])"
| "walk (JArr xs) path = walkItems xs 0 path []"
| "walkKeys [] path refsFromAllKeys = Inr refsFromAllKeys"
| "walkKeys ((key, n) # rest) path refsFromAllKeys =
     (case walk n (path @ [key]) of
        Inl e \<Rightarrow> Inl e
      | Inr refsForKey \<Rightarrow>
          (case mergeReferenceMaps refsFromAllKeys refsForKey of
             Inl e \<Rightarrow> Inl e
           | Inr merged \<Rightarrow> walkKeys rest path merged))"
| "walkItems [] i path refsFromAllKeys = Inr refsFromAllKeys"
| "walkItems (n # rest) i path refsFromAllKeys =
     (case walk n (path @ [string_of_nat i]) of
        Inl e \<Rightarrow> Inl e
      | Inr refsForKey \<Rightarrow>
          (case mergeReferenceMaps refsFromAllKeys refsForKey of
             Inl e \<Rightarrow> Inl e
           | Inr merged \<Rightarrow> walkItems rest (Suc i) path merged))"

definition getTemplateReferences :: "json \<Rightarrow> error + ReferenceMap" where
  "getTemplateReferences template = walk template []"

text \<open>
  \<^verbatim>\<open>{ Resources: { Foo: { Properties: { Bar: { Ref: name } } } } }\<close>, and the same tree with
  a property \<^verbatim>\<open>Baz: null\<close> beside \<^verbatim>\<open>Bar\<close>.
\<close>

definition referenceAtBar :: "string \<Rightarrow> json" where
  "referenceAtBar name =
     JObj [(''Resources'',
       JObj [(''Foo'',
         JObj [(''Properties'',
           JObj [(''Bar'', JObj [(''Ref'', JStr name)])])])])]"

definition referenceBesideNull :: "string \<Rightarrow> json" where
  "referenceBesideNull name =
     JObj [(''Resources'',
       JObj [(''Foo'',
         JObj [(''Properties'',
           JObj [(''Bar'', JObj [(''Ref'', JStr name)]), (''Baz'', JNull)])])])]"

section \<open>The @key transformer (KeyTransformer.ts)\<close>

subsection \<open>Schema nodes\<close>

text \<open>
  The nodes of the parsed schema, as far as the transformer reads them. A directive node
  carries \<open>d_id\<close>, its identity as an object (the transformer compares directive nodes
  with \<^verbatim>\<open>!==\<close>), and \<open>d_args\<close>, what \<^verbatim>\<open>getDirectiveArguments\<close> returns for it. An
  absent optional argument is \<open>None\<close>.
\<close>

datatype TypeNode = NamedType string | ListType TypeNode | NonNullType TypeNode

record InputValueDefinitionNode =
  iv_name :: string
  iv_type :: TypeNode

record FieldDefinitionNode =
  fd_name :: string
  fd_arguments :: "InputValueDefinitionNode list"
  fd_type :: TypeNode

record KeyArguments =
  ka_name :: "string option"
  ka_fields :: "string list"
  ka_queryField :: "string option"

record DirectiveNode =
  d_id :: nat
  d_name :: string
  d_args :: KeyArguments

record ObjectTypeDefinitionNode =
  od_name :: string
  od_fields :: "FieldDefinitionNode list"
  od_directives :: "DirectiveNode list"

record InputObjectTypeDefinitionNode =
  io_name :: string
  io_fields :: "InputValueDefinitionNode list"

datatype TypeDefinition =
    ObjectTypeDefinition ObjectTypeDefinitionNode
  | InputObjectTypeDefinition InputObjectTypeDefinitionNode
  | EnumTypeDefinition string
  | OtherTypeDefinition string

text \<open>
  Modelled from the spec: the type helpers of graphql-transformer-common
  (\<^verbatim>\<open>getBaseType\<close>, \<^verbatim>\<open>isNonNullType\<close>, \<^verbatim>\<open>makeNamedType\<close>, \<^verbatim>\<open>makeNonNullType\<close>,
  \<^verbatim>\<open>makeInputValueDefinition\<close>) are not among the sources. The base type of a field is the
  named type under its list and non-null wrappers; a field is required when its type is
  non-null.
\<close>

fun getBaseType :: "TypeNode \<Rightarrow> string" where
  "getBaseType (NamedType n) = n"
| "getBaseType (ListType t) = getBaseType t"
| "getBaseType (NonNullType t) = getBaseType t"

fun isNonNullType :: "TypeNode \<Rightarrow> bool" where
  "isNonNullType (NonNullType t) = True"
| "isNonNullType t = False"

definition makeNamedType :: "string \<Rightarrow> TypeNode" where
  "makeNamedType n = NamedType n"

definition makeNonNullType :: "TypeNode \<Rightarrow> TypeNode" where
  "makeNonNullType t = NonNullType t"

definition makeInputValueDefinition :: "string \<Rightarrow> TypeNode \<Rightarrow> InputValueDefinitionNode" where
  "makeInputValueDefinition n t = \<lparr>iv_name = n, iv_type = t\<rparr>"

text \<open>A JavaScript string or \<^verbatim>\<open>undefined\<close> is truthy when it is a non-empty string.\<close>

definition truthyString :: "string option \<Rightarrow> bool" where
  "truthyString s = (case s of None \<Rightarrow> False | Some v \<Rightarrow> v \<noteq> [])"

text \<open>\<^verbatim>\<open>xs[i]\<close>: \<^verbatim>\<open>undefined\<close> out of range.\<close>

definition jsIndex :: "'a list \<Rightarrow> nat \<Rightarrow> 'a option" where
  "jsIndex xs i = (if i < length xs then Some (xs ! i) else None)"

text \<open>A string or \<^verbatim>\<open>undefined\<close> inside a template literal.\<close>

definition interpolate :: "string option \<Rightarrow> string" where
  "interpolate s = (case s of None \<Rightarrow> ''undefined'' | Some v \<Rightarrow> v)"

subsection \<open>Resources\<close>

record KeySchemaElement =
  ks_AttributeName :: "string option"
  ks_KeyType :: string

record AttributeDefinition =
  ad_AttributeName :: string
  ad_AttributeType :: string

text \<open>
  A local or global secondary index; \<open>ix_ProvisionedThroughput\<close> is \<open>None\<close> on a local
  one, which has no such property.
\<close>

record SecondaryIndex =
  ix_IndexName :: "string option"
  ix_KeySchema :: "KeySchemaElement list"
  ix_ProjectionType :: string
  ix_ProvisionedThroughput :: "json option"

text \<open>
  The \<^verbatim>\<open>Properties\<close> of a resource of the template. The transformer reads a table's and a
  resolver's properties from whatever resource has the expected logical id, so every
  property is optional (\<open>None\<close> is \<^verbatim>\<open>undefined\<close>).
\<close>

record Resource =
  KeySchema :: "KeySchemaElement list option"
  AttributeDefinitions :: "AttributeDefinition list option"
  LocalSecondaryIndexes :: "SecondaryIndex list option"
  GlobalSecondaryIndexes :: "SecondaryIndex list option"
  FieldName :: "string option"
  TypeName :: "string option"
  ApiId :: "json option"
  DataSourceName :: "json option"
  RequestMappingTemplate :: "string option"
  ResponseMappingTemplate :: "string option"

subsection \<open>The compilation context\<close>

text \<open>
  Modelled from the spec: \<^verbatim>\<open>TransformerContext\<close> (graphql-transformer-core) is not among
  the sources. By section 4.1 it holds the resources and the schema types by name;
  \<^verbatim>\<open>get_resource\<close> and \<^verbatim>\<open>get_type\<close> look a name up, \<^verbatim>\<open>set_resource\<close>, \<^verbatim>\<open>put_type\<close> and
  \<^verbatim>\<open>add_input\<close> write under a name, the last writer winning, \<^verbatim>\<open>get_query_type\<close> is the
  object type registered under the query type's name, and \<^verbatim>\<open>map_type_to_stack\<close> records
  a resource id pattern for a type. A resource held by the context is mutated by writing
  it back under its id.
\<close>

record TransformerContext =
  resources :: "string \<Rightarrow> Resource option"
  nodeMap :: "string \<Rightarrow> TypeDefinition option"
  queryTypeName :: string
  stackMapping :: "(string \<times> string) list"

definition getResource :: "TransformerContext \<Rightarrow> string \<Rightarrow> Resource option" where
  "getResource ctx rid = resources ctx rid"

definition setResource :: "TransformerContext \<Rightarrow> string \<Rightarrow> Resource \<Rightarrow> TransformerContext" where
  "setResource ctx rid r = ctx\<lparr>resources := (resources ctx)(rid \<mapsto> r)\<rparr>"

definition getType :: "TransformerContext \<Rightarrow> string \<Rightarrow> TypeDefinition option" where
  "getType ctx n = nodeMap ctx n"

definition typeDefinitionName :: "TypeDefinition \<Rightarrow> string" where
  "typeDefinitionName d =
     (case d of
        ObjectTypeDefinition obj \<Rightarrow> od_name obj
      | InputObjectTypeDefinition inp \<Rightarrow> io_name inp
      | EnumTypeDefinition n \<Rightarrow> n
      | OtherTypeDefinition n \<Rightarrow> n)"

definition putType :: "TransformerContext \<Rightarrow> TypeDefinition \<Rightarrow> TransformerContext" where
  "putType ctx d = ctx\<lparr>nodeMap := (nodeMap ctx)(typeDefinitionName d \<mapsto> d)\<rparr>"

definition addInput :: "TransformerContext \<Rightarrow> InputObjectTypeDefinitionNode \<Rightarrow> TransformerContext" where
  "addInput ctx inp = putType ctx (InputObjectTypeDefinition inp)"

definition getQueryTypeName :: "TransformerContext \<Rightarrow> string" where
  "getQueryTypeName ctx = queryTypeName ctx"

definition getQuery :: "TransformerContext \<Rightarrow> ObjectTypeDefinitionNode option" where
  "getQuery ctx =
     (case nodeMap ctx (queryTypeName ctx) of
        Some (ObjectTypeDefinition q) \<Rightarrow> Some q
      | _ \<Rightarrow> None)"

definition addToStackMapping :: "TransformerContext \<Rightarrow> string \<Rightarrow> string \<Rightarrow> TransformerContext" where
  "addToStackMapping ctx stackName pattern =
     ctx\<lparr>stackMapping := stackMapping ctx @ [(stackName, pattern)]\<rparr>"

text \<open>
  What a step of the transformer leaves behind: the context as mutated so far, and the
  exception if one was thrown. A step that throws keeps the mutations made before it.
\<close>

type_synonym outcome = "TransformerContext \<times> error option"

definition andThen :: "outcome \<Rightarrow> (TransformerContext \<Rightarrow> outcome) \<Rightarrow> outcome" where
  "andThen r f = (case r of (ctx, None) \<Rightarrow> f ctx | (ctx, Some e) \<Rightarrow> (ctx, Some e))"

subsection \<open>Names and helpers the transformer takes from graphql-transformer-common\<close>

text \<open>
  The id and name builders (\<^verbatim>\<open>ModelResourceIDs\<close>, \<^verbatim>\<open>ResolverResourceIDs\<close>), the constants
  (\<^verbatim>\<open>ResourceConstants\<close>), \<^verbatim>\<open>attributeTypeFromScalar\<close>, \<^verbatim>\<open>makeConnectionField\<close> and
  \<^verbatim>\<open>makeScalarKeyConditionForType\<close> are not among the sources; they are parameters of
  the model. \<^verbatim>\<open>attributeTypeFromScalar\<close> may throw.
\<close>

record common =
  ModelTableResourceID :: "string \<Rightarrow> string"
  ModelTableDataSourceID :: "string \<Rightarrow> string"
  ModelCreateInputObjectName :: "string \<Rightarrow> string"
  ModelUpdateInputObjectName :: "string \<Rightarrow> string"
  ModelDeleteInputObjectName :: "string \<Rightarrow> string"
  ModelKeyConditionInputTypeName :: "string \<Rightarrow> string"
  DynamoDBGetResolverResourceID :: "string \<Rightarrow> string"
  DynamoDBListResolverResourceID :: "string \<Rightarrow> string"
  DynamoDBCreateResolverResourceID :: "string \<Rightarrow> string"
  DynamoDBUpdateResolverResourceID :: "string \<Rightarrow> string"
  DynamoDBDeleteResolverResourceID :: "string \<Rightarrow> string"
  ResolverResourceID :: "string \<Rightarrow> string \<Rightarrow> string"
  ShouldUsePayPerRequestBilling :: string
  DynamoDBModelTableReadIOPS :: string
  DynamoDBModelTableWriteIOPS :: string
  GraphQLAPILogicalID :: string
  ModelObjectKey :: string
  ModelQueryExpression :: string
  attributeTypeFromScalar :: "TypeNode \<Rightarrow> error + string"
  makeConnectionField :: "string \<Rightarrow> string \<Rightarrow> InputValueDefinitionNode list \<Rightarrow> FieldDefinitionNode"
  makeScalarKeyConditionForType :: "TypeNode \<Rightarrow> InputObjectTypeDefinitionNode"

subsection \<open>Key schema and attribute definitions\<close>

definition condenseRangeKey :: "string list \<Rightarrow> string" where
  "condenseRangeKey fs = join ''#'' fs"

definition keySchema :: "KeyArguments \<Rightarrow> KeySchemaElement list" where
  "keySchema args =
     (if length (ka_fields args) > 1
      then [\<lparr>ks_AttributeName = jsIndex (ka_fields args) 0, ks_KeyType = ''HASH''\<rparr>,
            \<lparr>ks_AttributeName = Some (condenseRangeKey (drop 1 (ka_fields args))),
             ks_KeyType = ''RANGE''\<rparr>]
      else [\<lparr>ks_AttributeName = jsIndex (ka_fields args) 0, ks_KeyType = ''HASH''\<rparr>])"

definition attributeTypeFromType :: "common \<Rightarrow> TypeNode \<Rightarrow> TransformerContext \<Rightarrow> error + string" where
  "attributeTypeFromType cm t ctx =
     (case getType ctx (getBaseType t) of
        Some (EnumTypeDefinition n) \<Rightarrow> Inr ''S''
      | _ \<Rightarrow> attributeTypeFromScalar cm t)"

text \<open>
  \<^verbatim>\<open>fieldMap\<close>: filled by \<^verbatim>\<open>Map.set\<close> field after field, so of two fields with one name
  the later one is kept.
\<close>

definition fieldMap :: "ObjectTypeDefinitionNode \<Rightarrow> string \<Rightarrow> FieldDefinitionNode option" where
  "fieldMap def = map_of (rev (map (\<lambda>f. (fd_name f, f)) (od_fields def)))"

text \<open>
  \<^verbatim>\<open>{ AttributeName: n, AttributeType: attributeTypeFromType(fieldMap.get(n).type, ctx) }\<close>;
  reading \<^verbatim>\<open>.type\<close> of an absent field raises.
\<close>

definition fieldAttribute ::
  "common \<Rightarrow> ObjectTypeDefinitionNode \<Rightarrow> TransformerContext \<Rightarrow> string option \<Rightarrow> error + AttributeDefinition" where
  "fieldAttribute cm def ctx n =
     (case n of
        None \<Rightarrow> Inl TypeError
      | Some fieldName \<Rightarrow>
          (case fieldMap def fieldName of
             None \<Rightarrow> Inl TypeError
           | Some f \<Rightarrow>
               (case attributeTypeFromType cm (fd_type f) ctx of
                  Inl e \<Rightarrow> Inl e
                | Inr t \<Rightarrow> Inr \<lparr>ad_AttributeName = fieldName, ad_AttributeType = t\<rparr>)))"

definition attributeDefinitions ::
  "common \<Rightarrow> KeyArguments \<Rightarrow> ObjectTypeDefinitionNode \<Rightarrow> TransformerContext
     \<Rightarrow> error + AttributeDefinition list" where
  "attributeDefinitions cm args def ctx =
     (if length (ka_fields args) > 2 then
        (case fieldAttribute cm def ctx (jsIndex (ka_fields args) 0) of
           Inl e \<Rightarrow> Inl e
         | Inr hashDef \<Rightarrow>
             Inr [hashDef,
                  \<lparr>ad_AttributeName = condenseRangeKey (drop 1 (ka_fields args)),
                   ad_AttributeType = ''S''\<rparr>])
      else if length (ka_fields args) = 2 then
        (case fieldAttribute cm def ctx (jsIndex (ka_fields args) 0) of
           Inl e \<Rightarrow> Inl e
         | Inr hashDef \<Rightarrow>
             (case fieldAttribute cm def ctx (jsIndex (ka_fields args) 1) of
                Inl e \<Rightarrow> Inl e
              | Inr sortDef \<Rightarrow> Inr [hashDef, sortDef]))
      else
        (case fieldAttribute cm def ctx (jsIndex (ka_fields args) 0) of
           Inl e \<Rightarrow> Inl e
         | Inr fieldDef \<Rightarrow> Inr [fieldDef]))"

definition isPrimaryKey :: "DirectiveNode \<Rightarrow> bool" where
  "isPrimaryKey directive = (\<not> truthyString (ka_name (d_args directive)))"

definition getPrimaryKey :: "ObjectTypeDefinitionNode \<Rightarrow> DirectiveNode option" where
  "getPrimaryKey obj =
     find (\<lambda>directive. d_name directive = ''key'' \<and> \<not> truthyString (ka_name (d_args directive)))
       (od_directives obj)"

definition modelAnnotationMessage :: string where
  "modelAnnotationMessage =
     ''The @key directive may only be added to object definitions annotated with @model.''"

subsection \<open>Validation\<close>

definition keyDirectives :: "ObjectTypeDefinitionNode \<Rightarrow> DirectiveNode list" where
  "keyDirectives def = filter (\<lambda>d. d_name d = ''key'') (od_directives def)"

text \<open>The check of one referenced field (rule 3 of \<^verbatim>\<open>validate\<close>).\<close>

definition validateField ::
  "common \<Rightarrow> ObjectTypeDefinitionNode \<Rightarrow> KeyArguments \<Rightarrow> TransformerContext \<Rightarrow> string \<Rightarrow> error option" where
  "validateField cm def directiveArgs ctx fieldName =
     (case fieldMap def fieldName of
        None \<Rightarrow>
          Some (InvalidDirectiveError
            (''You cannot specify a non-existant field '' @ [CHR 0x27] @ fieldName @ [CHR 0x27]
             @ '' in @key '' @ [CHR 0x27] @ interpolate (ka_name directiveArgs) @ [CHR 0x27]
             @ '' on type '' @ [CHR 0x27] @ od_name def @ [CHR 0x27] @ ''.''))
      | Some existingField \<Rightarrow>
          (case attributeTypeFromType cm (fd_type existingField) ctx of
             Inl e \<Rightarrow> Some e
           | Inr ddbKeyType \<Rightarrow>
               (if \<not> isNonNullType (fd_type existingField)
                then Some (InvalidDirectiveError
                  (''The primary @key on type '' @ [CHR 0x27] @ od_name def @ [CHR 0x27]
                   @ '' must reference non-null fields.''))
                else if ddbKeyType \<noteq> ''S'' \<and> ddbKeyType \<noteq> ''N'' \<and> ddbKeyType \<noteq> ''B''
                then Some (InvalidDirectiveError
                  (''The primary @key on type '' @ [CHR 0x27] @ od_name def @ [CHR 0x27]
                   @ '' cannot reference non-scalar field '' @ fieldName @ ''.''))
                else None)))"

text \<open>The first exception of a loop over a list, if any.\<close>

fun firstError :: "('a \<Rightarrow> error option) \<Rightarrow> 'a list \<Rightarrow> error option" where
  "firstError f [] = None"
| "firstError f (x # xs) = (case f x of Some e \<Rightarrow> Some e | None \<Rightarrow> firstError f xs)"

definition validate ::
  "common \<Rightarrow> ObjectTypeDefinitionNode \<Rightarrow> DirectiveNode \<Rightarrow> TransformerContext \<Rightarrow> error option" where
  "validate cm def directive ctx =
     (let directiveArgs = d_args directive;
          uniqueness =
            (if \<not> truthyString (ka_name directiveArgs) then
               (if list_ex (\<lambda>otherDirective.
                     d_id otherDirective \<noteq> d_id directive
                     \<and> \<not> truthyString (ka_name (d_args otherDirective))) (keyDirectives def)
                then Some (InvalidDirectiveError
                  (''You may only supply one primary @key on type '' @ [CHR 0x27] @ od_name def
                   @ [CHR 0x27] @ ''.''))
                else if truthyString (ka_queryField directiveArgs)
                then Some (InvalidDirectiveError
                  (''You cannot pass '' @ [CHR 0x27] @ ''queryField'' @ [CHR 0x27]
                   @ '' to the primary @key on type '' @ [CHR 0x27] @ od_name def @ [CHR 0x27] @ ''.''))
                else None)
             else
               (if list_ex (\<lambda>otherDirective.
                     d_id otherDirective \<noteq> d_id directive
                     \<and> ka_name (d_args otherDirective) = ka_name directiveArgs) (keyDirectives def)
                then Some (InvalidDirectiveError
                  (''You may only supply one @key with the name '' @ [CHR 0x27]
                   @ interpolate (ka_name directiveArgs) @ [CHR 0x27] @ '' on type '' @ [CHR 0x27]
                   @ od_name def @ [CHR 0x27] @ ''.''))
                else None))
      in case uniqueness of
           Some e \<Rightarrow> Some e
         | None \<Rightarrow> firstError (validateField cm def directiveArgs ctx) (ka_fields directiveArgs))"

subsection \<open>Replacing the primary key\<close>

text \<open>
  The first loop of \<^verbatim>\<open>replacePrimaryKey\<close>, one existing key at a time: the state is the
  table's attribute definitions and \<^verbatim>\<open>existingAttrDefSet\<close>.
\<close>

definition removeExistingKey ::
  "KeySchemaElement \<Rightarrow> AttributeDefinition list \<times> string set \<Rightarrow> AttributeDefinition list \<times> string set" where
  "removeExistingKey existingKey st =
     (case st of (attrs, existingAttrDefSet) \<Rightarrow>
        (case ks_AttributeName existingKey of
           None \<Rightarrow> (attrs, existingAttrDefSet)
         | Some n \<Rightarrow>
             (if n \<in> existingAttrDefSet
              then (filter (\<lambda>ad. ad_AttributeName ad \<noteq> n) attrs, existingAttrDefSet - {n})
              else (attrs, existingAttrDefSet))))"

text \<open>
  The loop that adds attribute definitions back, shared in shape by both operations: an
  attribute is pushed when \<^verbatim>\<open>existingAttrDefSet\<close>, which the loop does not update, lacks
  its name.
\<close>

definition pushMissing ::
  "string set \<Rightarrow> AttributeDefinition list \<Rightarrow> AttributeDefinition list \<Rightarrow> AttributeDefinition list" where
  "pushMissing existingAttrDefSet attrDefs attrs =
     fold (\<lambda>attr acc. if ad_AttributeName attr \<notin> existingAttrDefSet then acc @ [attr] else acc)
       attrDefs attrs"

definition replacePrimaryKey ::
  "common \<Rightarrow> ObjectTypeDefinitionNode \<Rightarrow> DirectiveNode \<Rightarrow> TransformerContext \<Rightarrow> outcome" where
  "replacePrimaryKey cm def directive ctx =
     (let args = d_args directive;
          ks = keySchema args
      in case attributeDefinitions cm args def ctx of
           Inl e \<Rightarrow> (ctx, Some e)
         | Inr attrDefs \<Rightarrow>
             (let tableLogicalID = ModelTableResourceID cm (od_name def)
              in case getResource ctx tableLogicalID of
                   None \<Rightarrow> (ctx, Some (InvalidDirectiveError modelAnnotationMessage))
                 | Some tableResource \<Rightarrow>
                     (case AttributeDefinitions tableResource of
                        None \<Rightarrow> (ctx, Some TypeError)
                      | Some attrs \<Rightarrow>
                          (case KeySchema tableResource of
                             None \<Rightarrow> (ctx, Some TypeError)
                           | Some existingKeys \<Rightarrow>
                               (case fold removeExistingKey existingKeys
                                       (attrs, set (map ad_AttributeName attrs)) of
                                  (attrs', existingAttrDefSet) \<Rightarrow>
                                    (setResource ctx tableLogicalID
                                       (tableResource\<lparr>
                                          KeySchema := Some ks,
                                          AttributeDefinitions :=
                                            Some (pushMissing existingAttrDefSet attrDefs attrs')\<rparr>),
                                     None))))))"

subsection \<open>Appending a secondary index\<close>

text \<open>\<^verbatim>\<open>append\<close>: a missing list counts as empty.\<close>

definition append_js :: "'a list option \<Rightarrow> 'a \<Rightarrow> 'a list" where
  "append_js maybeList item = (case maybeList of Some l \<Rightarrow> l @ [item] | None \<Rightarrow> [item])"

text \<open>
  The throughput of a global index:
  \<^verbatim>\<open>Fn.If(ShouldUsePayPerRequestBilling, Refs.NoValue, {ReadCapacityUnits: Fn.Ref(..), WriteCapacityUnits: Fn.Ref(..)})\<close>.
\<close>

definition provisionedThroughput :: "common \<Rightarrow> json" where
  "provisionedThroughput cm =
     JObj [(''Fn::If'',
            JArr [JStr (ShouldUsePayPerRequestBilling cm),
                  JObj [(''Ref'', JStr ''AWS::NoValue'')],
                  JObj [(''ReadCapacityUnits'', JObj [(''Ref'', JStr (DynamoDBModelTableReadIOPS cm))]),
                        (''WriteCapacityUnits'', JObj [(''Ref'', JStr (DynamoDBModelTableWriteIOPS cm))])]])]"

text \<open>
  \<^verbatim>\<open>ks[0].AttributeName\<close>; \<^verbatim>\<open>keySchema\<close> never returns an empty list.
\<close>

definition firstAttributeName :: "KeySchemaElement list \<Rightarrow> string option" where
  "firstAttributeName ks = (case ks of [] \<Rightarrow> None | k # _ \<Rightarrow> ks_AttributeName k)"

text \<open>
  \<^verbatim>\<open>primaryKeyDirective ? getDirectiveArguments(primaryKeyDirective).fields[0] : 'id'\<close>
\<close>

definition primaryPartitionKeyName :: "ObjectTypeDefinitionNode \<Rightarrow> string option" where
  "primaryPartitionKeyName def =
     (case getPrimaryKey def of
        Some primaryKeyDirective \<Rightarrow> jsIndex (ka_fields (d_args primaryKeyDirective)) 0
      | None \<Rightarrow> Some ''id'')"

definition appendSecondaryIndex ::
  "common \<Rightarrow> ObjectTypeDefinitionNode \<Rightarrow> DirectiveNode \<Rightarrow> TransformerContext \<Rightarrow> outcome" where
  "appendSecondaryIndex cm def directive ctx =
     (let args = d_args directive;
          ks = keySchema args
      in case attributeDefinitions cm args def ctx of
           Inl e \<Rightarrow> (ctx, Some e)
         | Inr attrDefs \<Rightarrow>
             (let tableLogicalID = ModelTableResourceID cm (od_name def)
              in case getResource ctx tableLogicalID of
                   None \<Rightarrow> (ctx, Some (InvalidDirectiveError modelAnnotationMessage))
                 | Some tableResource \<Rightarrow>
                     (let baseIndexProperties =
                            \<lparr>ix_IndexName = ka_name args, ix_KeySchema = ks,
                             ix_ProjectionType = ''ALL'', ix_ProvisionedThroughput = None\<rparr>;
                          indexed =
                            (if primaryPartitionKeyName def = firstAttributeName ks
                             then tableResource\<lparr>LocalSecondaryIndexes :=
                                    Some (append_js (LocalSecondaryIndexes tableResource)
                                            baseIndexProperties)\<rparr>
                             else tableResource\<lparr>GlobalSecondaryIndexes :=
                                    Some (append_js (GlobalSecondaryIndexes tableResource)
                                            (baseIndexProperties\<lparr>ix_ProvisionedThroughput :=
                                               Some (provisionedThroughput cm)\<rparr>))\<rparr>)
                      in case AttributeDefinitions indexed of
                           None \<Rightarrow> (setResource ctx tableLogicalID indexed, Some TypeError)
                         | Some attrs \<Rightarrow>
                             (setResource ctx tableLogicalID
                                (indexed\<lparr>AttributeDefinitions :=
                                   Some (pushMissing (set (map ad_AttributeName attrs)) attrDefs attrs)\<rparr>),
                              None))))"

definition updateIndexStructures ::
  "common \<Rightarrow> ObjectTypeDefinitionNode \<Rightarrow> DirectiveNode \<Rightarrow> TransformerContext \<Rightarrow> outcome" where
  "updateIndexStructures cm def directive ctx =
     (if isPrimaryKey directive then replacePrimaryKey cm def directive ctx
      else appendSecondaryIndex cm def directive ctx)"

subsection \<open>Query fields\<close>

text \<open>\<^verbatim>\<open>Array.prototype.map\<close> with a callback that may throw.\<close>

fun traverse :: "('a \<Rightarrow> error + 'b) \<Rightarrow> 'a list \<Rightarrow> error + 'b list" where
  "traverse f [] = Inr []"
| "traverse f (x # xs) =
     (case f x of
        Inl e \<Rightarrow> Inl e
      | Inr y \<Rightarrow> (case traverse f xs of Inl e \<Rightarrow> Inl e | Inr ys \<Rightarrow> Inr (y # ys)))"

text \<open>
  \<^verbatim>\<open>definition.fields.find(field => field.name.value === keyAttributeName)\<close> followed by a
  read of the field's \<^verbatim>\<open>type\<close>.
\<close>

definition keyFieldType :: "ObjectTypeDefinitionNode \<Rightarrow> string \<Rightarrow> error + TypeNode" where
  "keyFieldType def keyAttributeName =
     (case find (\<lambda>field. fd_name field = keyAttributeName) (od_fields def) of
        None \<Rightarrow> Inl TypeError
      | Some keyField \<Rightarrow> Inr (fd_type keyField))"

definition requiredKeyArgument :: "ObjectTypeDefinitionNode \<Rightarrow> string \<Rightarrow> error + InputValueDefinitionNode" where
  "requiredKeyArgument def keyAttributeName =
     (case keyFieldType def keyAttributeName of
        Inl e \<Rightarrow> Inl e
      | Inr t \<Rightarrow>
          Inr (makeInputValueDefinition keyAttributeName
                 (makeNonNullType (makeNamedType (getBaseType t)))))"

definition replaceField :: "FieldDefinitionNode \<Rightarrow> FieldDefinitionNode list \<Rightarrow> FieldDefinitionNode list" where
  "replaceField newField fs = map (\<lambda>field. if fd_name field = fd_name newField then newField else field) fs"

text \<open>
  When the resolver names no field of the query type, \<^verbatim>\<open>getField\<close> is
  \<^verbatim>\<open>{ arguments: getArguments }\<close>, and mapping over a non-empty field list reads
  \<^verbatim>\<open>getField.name.value\<close>, which raises.
\<close>

definition updateGetField ::
  "common \<Rightarrow> ObjectTypeDefinitionNode \<Rightarrow> DirectiveNode \<Rightarrow> TransformerContext \<Rightarrow> outcome" where
  "updateGetField cm def directive ctx =
     (case getResource ctx (DynamoDBGetResolverResourceID cm (od_name def)) of
        None \<Rightarrow> (ctx, None)
      | Some getResolverResource \<Rightarrow>
          (if isPrimaryKey directive then
             (case getQuery ctx of
                None \<Rightarrow> (ctx, Some TypeError)
              | Some query \<Rightarrow>
                  (case traverse (requiredKeyArgument def) (ka_fields (d_args directive)) of
                     Inl e \<Rightarrow> (ctx, Some e)
                   | Inr getArguments \<Rightarrow>
                       (case find (\<lambda>field. Some (fd_name field) = FieldName getResolverResource)
                               (od_fields query) of
                          None \<Rightarrow>
                            (if od_fields query = [] then (putType ctx (ObjectTypeDefinition query), None)
                             else (ctx, Some TypeError))
                        | Some getField \<Rightarrow>
                            (putType ctx (ObjectTypeDefinition
                               (query\<lparr>od_fields :=
                                  replaceField (getField\<lparr>fd_arguments := getArguments\<rparr>)
                                    (od_fields query)\<rparr>)), None))))
           else (ctx, None)))"

text \<open>
  The argument \<^verbatim>\<open>updateListField\<close> makes for the key field at index \<open>i\<close>, whose type is
  \<open>t\<close>.
\<close>

definition listKeyArgument :: "common \<Rightarrow> KeyArguments \<Rightarrow> nat \<Rightarrow> TypeNode \<Rightarrow> InputValueDefinitionNode" where
  "listKeyArgument cm args i t =
     (if i = length (ka_fields args) - 1 \<and> length (ka_fields args) \<noteq> 1
      then makeInputValueDefinition (ka_fields args ! i)
             (makeNamedType (ModelKeyConditionInputTypeName cm (getBaseType t)))
      else makeInputValueDefinition (ka_fields args ! i) (makeNamedType (getBaseType t)))"

text \<open>
  The loop \<^verbatim>\<open>for (let i = args.fields.length-1; i >= 0; i--)\<close>: the counter \<open>Suc i\<close> of
  the model is the number of fields left, the fields \<open>0 .. i\<close>, and the body runs for the
  field at index \<open>i\<close>.
\<close>

fun listArgumentsLoop ::
  "common \<Rightarrow> ObjectTypeDefinitionNode \<Rightarrow> KeyArguments \<Rightarrow> nat \<Rightarrow> InputValueDefinitionNode list
     \<Rightarrow> error + InputValueDefinitionNode list" where
  "listArgumentsLoop cm def args 0 listArguments = Inr listArguments"
| "listArgumentsLoop cm def args (Suc i) listArguments =
     (case keyFieldType def (ka_fields args ! i) of
        Inl e \<Rightarrow> Inl e
      | Inr t \<Rightarrow> listArgumentsLoop cm def args i (listKeyArgument cm args i t # listArguments))"

definition updateListField ::
  "common \<Rightarrow> ObjectTypeDefinitionNode \<Rightarrow> DirectiveNode \<Rightarrow> TransformerContext \<Rightarrow> outcome" where
  "updateListField cm def directive ctx =
     (case getResource ctx (DynamoDBListResolverResourceID cm (od_name def)) of
        None \<Rightarrow> (ctx, None)
      | Some listResolverResource \<Rightarrow>
          (if isPrimaryKey directive then
             (case getQuery ctx of
                None \<Rightarrow> (ctx, Some TypeError)
              | Some query \<Rightarrow>
                  (case find (\<lambda>field. Some (fd_name field) = FieldName listResolverResource)
                          (od_fields query) of
                     None \<Rightarrow> (ctx, Some TypeError)
                   | Some listField \<Rightarrow>
                       (case listArgumentsLoop cm def (d_args directive)
                               (length (ka_fields (d_args directive))) (fd_arguments listField) of
                          Inl e \<Rightarrow> (ctx, Some e)
                        | Inr listArguments \<Rightarrow>
                            (putType ctx (ObjectTypeDefinition
                               (query\<lparr>od_fields :=
                                  replaceField (listField\<lparr>fd_arguments := listArguments\<rparr>)
                                    (od_fields query)\<rparr>)), None))))
           else (ctx, None)))"

text \<open>The argument \<^verbatim>\<open>ensureQueryField\<close> makes for the key field at index \<open>i\<close>.\<close>

definition queryKeyArgument ::
  "common \<Rightarrow> ObjectTypeDefinitionNode \<Rightarrow> KeyArguments \<Rightarrow> nat \<Rightarrow> error + InputValueDefinitionNode" where
  "queryKeyArgument cm def args i =
     (case keyFieldType def (ka_fields args ! i) of
        Inl e \<Rightarrow> Inl e
      | Inr t \<Rightarrow>
          Inr (if i = length (ka_fields args) - 1 \<and> length (ka_fields args) \<noteq> 1
               then makeInputValueDefinition (ka_fields args ! i)
                      (makeNamedType (ModelKeyConditionInputTypeName cm (getBaseType t)))
               else makeInputValueDefinition (ka_fields args ! i)
                      (makeNonNullType (makeNamedType (getBaseType t)))))"

definition ensureQueryField ::
  "common \<Rightarrow> ObjectTypeDefinitionNode \<Rightarrow> DirectiveNode \<Rightarrow> TransformerContext \<Rightarrow> outcome" where
  "ensureQueryField cm def directive ctx =
     (case ka_queryField (d_args directive) of
        None \<Rightarrow> (ctx, None)
      | Some queryFieldName \<Rightarrow>
          (if queryFieldName \<noteq> [] \<and> \<not> isPrimaryKey directive then
             (case traverse (queryKeyArgument cm def (d_args directive))
                     [0 ..< length (ka_fields (d_args directive))] of
                Inl e \<Rightarrow> (ctx, Some e)
              | Inr queryArgs \<Rightarrow>
                  (case getQuery ctx of
                     None \<Rightarrow> (ctx, Some TypeError)
                   | Some queryType \<Rightarrow>
                       (putType ctx (ObjectTypeDefinition
                          (queryType\<lparr>od_fields :=
                             od_fields queryType
                             @ [makeConnectionField cm queryFieldName (od_name def) queryArgs]\<rparr>)),
                        None)))
           else (ctx, None)))"

definition updateQueryFields ::
  "common \<Rightarrow> ObjectTypeDefinitionNode \<Rightarrow> DirectiveNode \<Rightarrow> TransformerContext \<Rightarrow> outcome" where
  "updateQueryFields cm def directive ctx =
     andThen (andThen (updateGetField cm def directive ctx) (updateListField cm def directive))
       (ensureQueryField cm def directive)"

subsection \<open>Input objects\<close>

text \<open>
  \<^verbatim>\<open>keyFields.find(k => k === f.name.value)\<close> as a condition: the found string is truthy
  when it is not empty.
\<close>

definition isKeyField :: "string list \<Rightarrow> string \<Rightarrow> bool" where
  "isKeyField keyFields n = (n \<in> set keyFields \<and> n \<noteq> [])"

definition primaryIdFields ::
  "ObjectTypeDefinitionNode \<Rightarrow> string list \<Rightarrow> error + InputValueDefinitionNode list" where
  "primaryIdFields def keyFields = traverse (requiredKeyArgument def) keyFields"

definition replaceCreateInput ::
  "ObjectTypeDefinitionNode \<Rightarrow> InputObjectTypeDefinitionNode \<Rightarrow> string list
     \<Rightarrow> InputObjectTypeDefinitionNode" where
  "replaceCreateInput def input keyFields =
     input\<lparr>io_fields :=
       foldl (\<lambda>acc f.
           if isKeyField keyFields (iv_name f)
           then acc @ [makeInputValueDefinition (iv_name f)
                         (makeNonNullType (makeNamedType (getBaseType (iv_type f))))]
           else (case find (\<lambda>field. fd_name field = iv_name f) (od_fields def) of
                   Some existingField \<Rightarrow>
                     (if isNonNullType (fd_type existingField)
                      then acc @ [makeInputValueDefinition (iv_name f)
                                    (makeNonNullType (makeNamedType (getBaseType (iv_type f))))]
                      else acc @ [makeInputValueDefinition (iv_name f)
                                    (makeNamedType (getBaseType (iv_type f)))])
                 | None \<Rightarrow> acc))
         [] (io_fields input)\<rparr>"

definition replaceUpdateInput ::
  "ObjectTypeDefinitionNode \<Rightarrow> InputObjectTypeDefinitionNode \<Rightarrow> string list
     \<Rightarrow> InputObjectTypeDefinitionNode" where
  "replaceUpdateInput def input keyFields =
     input\<lparr>io_fields :=
       map (\<lambda>f.
           if isKeyField keyFields (iv_name f)
           then makeInputValueDefinition (iv_name f)
                  (makeNonNullType (makeNamedType (getBaseType (iv_type f))))
           else makeInputValueDefinition (iv_name f) (makeNamedType (getBaseType (iv_type f))))
         (io_fields input)\<rparr>"

definition replaceDeleteInput ::
  "ObjectTypeDefinitionNode \<Rightarrow> InputObjectTypeDefinitionNode \<Rightarrow> string list
     \<Rightarrow> error + InputObjectTypeDefinitionNode" where
  "replaceDeleteInput def input keyFields =
     (case primaryIdFields def keyFields of
        Inl e \<Rightarrow> Inl e
      | Inr fs \<Rightarrow> Inr (input\<lparr>io_fields := fs\<rparr>))"

text \<open>
  \<^verbatim>\<open>ctx.getType(name) as InputObjectTypeDefinitionNode\<close>: the cast is taken at its word, a
  definition of another kind under that name is left alone.
\<close>

definition getInputObject :: "TransformerContext \<Rightarrow> string \<Rightarrow> InputObjectTypeDefinitionNode option" where
  "getInputObject ctx n =
     (case getType ctx n of Some (InputObjectTypeDefinition inp) \<Rightarrow> Some inp | _ \<Rightarrow> None)"

definition updateInputObjects ::
  "common \<Rightarrow> ObjectTypeDefinitionNode \<Rightarrow> DirectiveNode \<Rightarrow> TransformerContext \<Rightarrow> outcome" where
  "updateInputObjects cm def directive ctx =
     (if isPrimaryKey directive then
        (let keyFields = ka_fields (d_args directive);
             ctx1 = (case getInputObject ctx (ModelCreateInputObjectName cm (od_name def)) of
                       Some createInput \<Rightarrow>
                         putType ctx (InputObjectTypeDefinition (replaceCreateInput def createInput keyFields))
                     | None \<Rightarrow> ctx);
             ctx2 = (case getInputObject ctx1 (ModelUpdateInputObjectName cm (od_name def)) of
                       Some updateInput \<Rightarrow>
                         putType ctx1 (InputObjectTypeDefinition (replaceUpdateInput def updateInput keyFields))
                     | None \<Rightarrow> ctx1)
         in case getInputObject ctx2 (ModelDeleteInputObjectName cm (od_name def)) of
              Some deleteInput \<Rightarrow>
                (case replaceDeleteInput def deleteInput keyFields of
                   Inl e \<Rightarrow> (ctx2, Some e)
                 | Inr d \<Rightarrow> (putType ctx2 (InputObjectTypeDefinition d), None))
            | None \<Rightarrow> (ctx2, None))
      else (ctx, None))"

definition updateSchema ::
  "common \<Rightarrow> ObjectTypeDefinitionNode \<Rightarrow> DirectiveNode \<Rightarrow> TransformerContext \<Rightarrow> outcome" where
  "updateSchema cm def directive ctx =
     andThen (updateQueryFields cm def directive ctx) (updateInputObjects cm def directive)"

subsection \<open>Resolver templates\<close>

text \<open>
  Modelled from the spec: the expression trees of graphql-mapping-template (section 3,
  Expression: a tagged variant forming a tree), one constructor for each builder the
  sources call (\<^verbatim>\<open>obj\<close>, \<^verbatim>\<open>str\<close>, \<^verbatim>\<open>ref\<close>, \<^verbatim>\<open>raw\<close>, \<^verbatim>\<open>qref\<close>, \<^verbatim>\<open>set\<close>,
  \<^verbatim>\<open>compoundExpression\<close>, \<^verbatim>\<open>newline\<close>, \<^verbatim>\<open>iff\<close> with its \<^verbatim>\<open>inline\<close> flag, \<^verbatim>\<open>block\<close>,
  \<^verbatim>\<open>not\<close>, \<^verbatim>\<open>parens\<close>, \<^verbatim>\<open>or\<close>, \<^verbatim>\<open>equals\<close>). The library is not among the sources; its
  printer and \<^verbatim>\<open>applyKeyExpressionForCompositeKey\<close> are parameters.
\<close>

datatype Expression =
    ObjectNode "(string \<times> Expression) list"
  | StringNode string
  | ReferenceNode string
  | RawNode string
  | QuietReferenceNode string
  | SetNode Expression Expression
  | CompoundExpressionNode "Expression list"
  | NewLineNode
  | IfNode Expression Expression bool
  | BlockNode string "Expression list"
  | NotNode Expression
  | ParensNode Expression
  | OrNode "Expression list"
  | EqualsNode Expression Expression

record templates =
  print :: "Expression \<Rightarrow> string"
  printBlock :: "string \<Rightarrow> Expression \<Rightarrow> string"
  applyKeyExpressionForCompositeKey :: "string list \<Rightarrow> string list \<Rightarrow> string \<Rightarrow> Expression"

definition dquote :: string where
  "dquote = [CHR 0x22]"

definition toDynamoDBArgument :: "string \<Rightarrow> string \<Rightarrow> Expression" where
  "toDynamoDBArgument argsPrefix field =
     ReferenceNode (''util.dynamodb.toDynamoDB($'' @ argsPrefix @ ''.'' @ field @ '')'')"

definition condensedSortKeyValue :: "string \<Rightarrow> string list \<Rightarrow> string" where
  "condensedSortKeyValue argsPrefix rangeKeyFields =
     condenseRangeKey (map (\<lambda>keyField. ''${'' @ argsPrefix @ ''.'' @ keyField @ ''}'') rangeKeyFields)"

text \<open>
  An object literal with computed keys: a key written twice keeps its first place and
  its last value.
\<close>

definition modelObjectKey :: "KeyArguments \<Rightarrow> bool \<Rightarrow> error + Expression" where
  "modelObjectKey args isMutation =
     (let argsPrefix = (if isMutation then ''ctx.args.input'' else ''ctx.args'');
          fs = ka_fields args
      in if length fs > 2 then
           Inr (ObjectNode
             (AList.update (condenseRangeKey (drop 1 fs))
                (ReferenceNode (''util.dynamodb.toDynamoDB('' @ dquote
                   @ condensedSortKeyValue argsPrefix (drop 1 fs) @ dquote @ '')''))
                [(fs ! 0, toDynamoDBArgument argsPrefix (fs ! 0))]))
         else if length fs = 2 then
           Inr (ObjectNode
             (AList.update (fs ! 1) (toDynamoDBArgument argsPrefix (fs ! 1))
                [(fs ! 0, toDynamoDBArgument argsPrefix (fs ! 0))]))
         else if length fs = 1 then
           Inr (ObjectNode [(fs ! 0, toDynamoDBArgument argsPrefix (fs ! 0))])
         else Inl (InvalidDirectiveError ''@key directives must include at least one field.''))"

definition ensureCompositeKey :: "KeyArguments \<Rightarrow> Expression" where
  "ensureCompositeKey args =
     (if length (ka_fields args) > 2
      then QuietReferenceNode
             (''$ctx.args.input.put('' @ dquote @ condenseRangeKey (drop 1 (ka_fields args)) @ dquote
              @ '','' @ dquote @ condensedSortKeyValue ''ctx.args.input'' (drop 1 (ka_fields args))
              @ dquote @ '')'')
      else NewLineNode)"

definition setKeySnippet :: "templates \<Rightarrow> common \<Rightarrow> DirectiveNode \<Rightarrow> bool \<Rightarrow> error + string" where
  "setKeySnippet tp cm directive isMutation =
     (case modelObjectKey (d_args directive) isMutation of
        Inl e \<Rightarrow> Inl e
      | Inr key \<Rightarrow>
          Inr (printBlock tp ''Set the primary @key''
                 (CompoundExpressionNode
                    (SetNode (ReferenceNode (ModelObjectKey cm)) key
                     # (if isMutation then [ensureCompositeKey (d_args directive)] else [])))))"

definition setQuerySnippet ::
  "templates \<Rightarrow> common \<Rightarrow> ObjectTypeDefinitionNode \<Rightarrow> DirectiveNode \<Rightarrow> TransformerContext
     \<Rightarrow> error + Expression" where
  "setQuerySnippet tp cm def directive ctx =
     (let keys = ka_fields (d_args directive)
      in case traverse (\<lambda>k. case keyFieldType def k of
                               Inl e \<Rightarrow> Inl e
                             | Inr t \<Rightarrow> attributeTypeFromType cm t ctx) keys of
           Inl e \<Rightarrow> Inl e
         | Inr keyTypes \<Rightarrow>
             Inr (BlockNode ''Set query expression for @key''
                    [SetNode (ReferenceNode (ModelQueryExpression cm)) (ObjectNode []),
                     applyKeyExpressionForCompositeKey tp keys keyTypes (ModelQueryExpression cm)]))"

definition getAtt :: "string \<Rightarrow> string \<Rightarrow> json" where
  "getAtt logicalId attribute = JObj [(''Fn::GetAtt'', JArr [JStr logicalId, JStr attribute])]"

definition makeQueryResolver ::
  "templates \<Rightarrow> common \<Rightarrow> ObjectTypeDefinitionNode \<Rightarrow> DirectiveNode \<Rightarrow> TransformerContext
     \<Rightarrow> error + Resource" where
  "makeQueryResolver tp cm def directive ctx =
     (case setQuerySnippet tp cm def directive ctx of
        Inl e \<Rightarrow> Inl e
      | Inr querySnippet \<Rightarrow>
          Inr \<lparr>KeySchema = None, AttributeDefinitions = None, LocalSecondaryIndexes = None,
               GlobalSecondaryIndexes = None,
               FieldName = ka_queryField (d_args directive),
               TypeName = Some (getQueryTypeName ctx),
               ApiId = Some (getAtt (GraphQLAPILogicalID cm) ''ApiId''),
               DataSourceName = Some (getAtt (ModelTableDataSourceID cm (od_name def)) ''Name''),
               RequestMappingTemplate = Some (print tp
                 (CompoundExpressionNode
                    [querySnippet,
                     SetNode (ReferenceNode ''limit'')
                       (ReferenceNode ''util.defaultIfNull($context.args.limit, 10)''),
                     SetNode (ReferenceNode ''QueryRequest'')
                       (ObjectNode
                          [(''version'', StringNode ''2017-02-28''),
                           (''operation'', StringNode ''Query''),
                           (''limit'', ReferenceNode ''limit''),
                           (''query'', ReferenceNode (ModelQueryExpression cm)),
                           (''index'', StringNode (interpolate (ka_name (d_args directive))))]),
                     IfNode (ReferenceNode ''context.args.nextToken'')
                       (SetNode (ReferenceNode ''QueryRequest.nextToken'')
                          (StringNode ''$context.args.nextToken'')) True,
                     IfNode (ReferenceNode ''context.args.filter'')
                       (SetNode (ReferenceNode ''QueryRequest.filter'')
                          (ReferenceNode ''util.transform.toDynamoDBFilterExpression($ctx.args.filter)''))
                       True,
                     RawNode ''$util.toJson($QueryRequest)''])),
               ResponseMappingTemplate = Some (print tp (RawNode ''$util.toJson($ctx.result)''))\<rparr>)"

text \<open>
  \<^verbatim>\<open>resolver.Properties.RequestMappingTemplate = snippet + '\n' + resolver.Properties.RequestMappingTemplate\<close>
  on the resolver with the given id, if there is one; the snippet is computed only then.
\<close>

definition prependSnippet :: "string \<Rightarrow> error + string \<Rightarrow> TransformerContext \<Rightarrow> outcome" where
  "prependSnippet resolverId snippet ctx =
     (case getResource ctx resolverId of
        None \<Rightarrow> (ctx, None)
      | Some resolver \<Rightarrow>
          (case snippet of
             Inl e \<Rightarrow> (ctx, Some e)
           | Inr text \<Rightarrow>
               (setResource ctx resolverId
                  (resolver\<lparr>RequestMappingTemplate :=
                     Some (text @ [CHR 0x0A] @ interpolate (RequestMappingTemplate resolver))\<rparr>),
                None)))"

definition printed :: "templates \<Rightarrow> error + Expression \<Rightarrow> error + string" where
  "printed tp e = (case e of Inl x \<Rightarrow> Inl x | Inr v \<Rightarrow> Inr (print tp v))"

definition updateResolvers ::
  "templates \<Rightarrow> common \<Rightarrow> ObjectTypeDefinitionNode \<Rightarrow> DirectiveNode \<Rightarrow> TransformerContext \<Rightarrow> outcome" where
  "updateResolvers tp cm def directive ctx =
     (if isPrimaryKey directive then
        andThen (andThen (andThen (andThen
          (prependSnippet (DynamoDBGetResolverResourceID cm (od_name def))
             (setKeySnippet tp cm directive False) ctx)
          (\<lambda>c. prependSnippet (DynamoDBListResolverResourceID cm (od_name def))
             (printed tp (setQuerySnippet tp cm def directive c)) c))
          (prependSnippet (DynamoDBCreateResolverResourceID cm (od_name def))
             (setKeySnippet tp cm directive True)))
          (prependSnippet (DynamoDBUpdateResolverResourceID cm (od_name def))
             (setKeySnippet tp cm directive True)))
          (prependSnippet (DynamoDBDeleteResolverResourceID cm (od_name def))
             (setKeySnippet tp cm directive True))
      else if truthyString (ka_name (d_args directive)) \<and> truthyString (ka_queryField (d_args directive))
      then
        (let queryResolverId =
               ResolverResourceID cm (getQueryTypeName ctx) (interpolate (ka_queryField (d_args directive)))
         in case makeQueryResolver tp cm def directive ctx of
              Inl e \<Rightarrow> (ctx, Some e)
            | Inr queryResolver \<Rightarrow>
                (setResource
                   (addToStackMapping ctx (od_name def) (''^'' @ queryResolverId @ ''$''))
                   queryResolverId queryResolver, None))
      else (ctx, None))"

definition addKeyConditionInputs ::
  "common \<Rightarrow> ObjectTypeDefinitionNode \<Rightarrow> DirectiveNode \<Rightarrow> TransformerContext \<Rightarrow> outcome" where
  "addKeyConditionInputs cm def directive ctx =
     (let fs = ka_fields (d_args directive)
      in if length fs > 1 then
           (case (if length fs > 2 then Inr (makeNamedType ''String'')
                  else keyFieldType def (fs ! (length fs - 1))) of
              Inl e \<Rightarrow> (ctx, Some e)
            | Inr t \<Rightarrow>
                (let sortKeyConditionInput = makeScalarKeyConditionForType cm t
                 in case getType ctx (io_name sortKeyConditionInput) of
                      None \<Rightarrow> (addInput ctx sortKeyConditionInput, None)
                    | Some existing \<Rightarrow> (ctx, None)))
         else (ctx, None))"

subsection \<open>Applying the directive\<close>

definition object ::
  "templates \<Rightarrow> common \<Rightarrow> ObjectTypeDefinitionNode \<Rightarrow> DirectiveNode \<Rightarrow> TransformerContext \<Rightarrow> outcome" where
  "object tp cm def directive ctx =
     (case validate cm def directive ctx of
        Some e \<Rightarrow> (ctx, Some e)
      | None \<Rightarrow>
          andThen (andThen (andThen
            (updateIndexStructures cm def directive ctx)
            (updateSchema cm def directive))
            (updateResolvers tp cm def directive))
            (addKeyConditionInputs cm def directive))"

subsection \<open>The key schemas of a table and its attribute definitions\<close>


definition listOf :: "'a list option \<Rightarrow> 'a list" where
  "listOf l = (case l of None \<Rightarrow> [] | Some xs \<Rightarrow> xs)"

text \<open>The key elements of the secondary indexes, and of all key schemas of a table.\<close>

definition secondaryKeyElements :: "Resource \<Rightarrow> KeySchemaElement list" where
  "secondaryKeyElements r =
     concat (map ix_KeySchema (listOf (LocalSecondaryIndexes r)))
     @ concat (map ix_KeySchema (listOf (GlobalSecondaryIndexes r)))"

definition keyElements :: "Resource \<Rightarrow> KeySchemaElement list" where
  "keyElements r = listOf (KeySchema r) @ secondaryKeyElements r"

definition attributeNames :: "Resource \<Rightarrow> string list" where
  "attributeNames r = map ad_AttributeName (listOf (AttributeDefinitions r))"

text \<open>
  The invariant of section 3: the attribute definitions hold one entry for each attribute
  name that a key schema of the table references (primary or secondary), none twice
  and no other.
\<close>

definition attributesMatchKeys :: "Resource \<Rightarrow> bool" where
  "attributesMatchKeys r =
     (distinct (attributeNames r)
      \<and> Some ` set (attributeNames r) = set (map ks_AttributeName (keyElements r)))"

section \<open>The authorization check for reads (ResourceFactory)\<close>

text \<open>
  The names of the four flags, \<^verbatim>\<open>ResourceConstants.SNIPPETS\<close>, are not among the sources;
  they are parameters.
\<close>

record authSnippets =
  IsNotAuthProtectedVariable :: string
  IsStaticGroupAuthorizedVariable :: string
  IsDynamicGroupAuthorizedVariable :: string
  IsOwnerAuthorizedVariable :: string

definition throwIfUnauthorizedForReadOperations :: "authSnippets \<Rightarrow> Expression" where
  "throwIfUnauthorizedForReadOperations sn =
     IfNode
       (NotNode (ParensNode (OrNode
          [EqualsNode (ReferenceNode (IsNotAuthProtectedVariable sn)) (RawNode ''true''),
           EqualsNode (ReferenceNode (IsStaticGroupAuthorizedVariable sn)) (RawNode ''true''),
           EqualsNode (ReferenceNode (IsDynamicGroupAuthorizedVariable sn)) (RawNode ''true''),
           EqualsNode (ReferenceNode (IsOwnerAuthorizedVariable sn)) (RawNode ''true'')])))
       (RawNode ''$util.unauthorized()'')
       False"

subsection \<open>What the composed check means when the template runs\<close>

text \<open>
  The template engine is outside the sources. For the fragment the check is made of, its
  evaluation is: a variable holds a boolean or nothing (\<open>None\<close>); \<^verbatim>\<open>$x == true\<close> holds when
  \<open>x\<close> holds \<open>true\<close>; \<^verbatim>\<open>||\<close>, \<^verbatim>\<open>!\<close> and parentheses are those of logic; \<^verbatim>\<open>#if\<close> runs its body
  when its predicate holds; \<^verbatim>\<open>$util.unauthorized()\<close> ends the request as unauthorized.
\<close>

fun evalValue :: "(string \<Rightarrow> bool option) \<Rightarrow> Expression \<Rightarrow> bool option" where
  "evalValue env (ReferenceNode n) = env n"
| "evalValue env (RawNode s) =
     (if s = ''true'' then Some True else if s = ''false'' then Some False else None)"
| "evalValue env e = None"

fun holds :: "(string \<Rightarrow> bool option) \<Rightarrow> Expression \<Rightarrow> bool" where
  "holds env (EqualsNode l r) = (evalValue env l \<noteq> None \<and> evalValue env l = evalValue env r)"
| "holds env (OrNode es) = list_ex (holds env) es"
| "holds env (NotNode e) = (\<not> holds env e)"
| "holds env (ParensNode e) = holds env e"
| "holds env (ReferenceNode n) = (env n = Some True)"
| "holds env (RawNode s) = (s = ''true'')"
| "holds env e = False"

datatype ending = Unauthorized | Permitted

fun run :: "(string \<Rightarrow> bool option) \<Rightarrow> Expression \<Rightarrow> ending" where
  "run env (IfNode p e inline) = (if holds env p then run env e else Permitted)"
| "run env (RawNode s) = (if s = ''$util.unauthorized()'' then Unauthorized else Permitted)"
| "run env e = Permitted"

section \<open>Sample schemas and parameters\<close>

subsection \<open>Parameters\<close>

text \<open>
  An instance of the parameters for evaluating the model on concrete schemas: ids and
  names built from the type name, and the attribute type of the built-in scalars.
\<close>

definition sampleAttributeType :: "TypeNode \<Rightarrow> error + string" where
  "sampleAttributeType t =
     (let b = getBaseType t
      in if b \<in> {''String'', ''ID'', ''AWSDateTime'', ''AWSEmail''} then Inr ''S''
         else if b \<in> {''Int'', ''Float''} then Inr ''N''
         else if b = ''Boolean'' then Inr ''BOOL''
         else Inl (OtherError ''Expected scalar''))"

definition sampleCommon :: common where
  "sampleCommon =
     \<lparr>ModelTableResourceID = (\<lambda>n. n @ ''Table''),
      ModelTableDataSourceID = (\<lambda>n. n @ ''DataSource''),
      ModelCreateInputObjectName = (\<lambda>n. ''Create'' @ n @ ''Input''),
      ModelUpdateInputObjectName = (\<lambda>n. ''Update'' @ n @ ''Input''),
      ModelDeleteInputObjectName = (\<lambda>n. ''Delete'' @ n @ ''Input''),
      ModelKeyConditionInputTypeName = (\<lambda>n. ''Model'' @ n @ ''KeyConditionInput''),
      DynamoDBGetResolverResourceID = (\<lambda>n. ''Get'' @ n @ ''Resolver''),
      DynamoDBListResolverResourceID = (\<lambda>n. ''List'' @ n @ ''Resolver''),
      DynamoDBCreateResolverResourceID = (\<lambda>n. ''Create'' @ n @ ''Resolver''),
      DynamoDBUpdateResolverResourceID = (\<lambda>n. ''Update'' @ n @ ''Resolver''),
      DynamoDBDeleteResolverResourceID = (\<lambda>n. ''Delete'' @ n @ ''Resolver''),
      ResolverResourceID = (\<lambda>t f. t @ f @ ''Resolver''),
      ShouldUsePayPerRequestBilling = ''ShouldUsePayPerRequestBilling'',
      DynamoDBModelTableReadIOPS = ''DynamoDBModelTableReadIOPS'',
      DynamoDBModelTableWriteIOPS = ''DynamoDBModelTableWriteIOPS'',
      GraphQLAPILogicalID = ''GraphQLAPI'',
      ModelObjectKey = ''modelObjectKey'',
      ModelQueryExpression = ''modelQueryExpression'',
      attributeTypeFromScalar = sampleAttributeType,
      makeConnectionField = (\<lambda>n t args. \<lparr>fd_name = n, fd_arguments = args, fd_type = NamedType t\<rparr>),
      makeScalarKeyConditionForType =
        (\<lambda>t. \<lparr>io_name = ''Model'' @ getBaseType t @ ''KeyConditionInput'', io_fields = []\<rparr>)\<rparr>"

definition emptyResource :: Resource where
  "emptyResource =
     \<lparr>KeySchema = None, AttributeDefinitions = None, LocalSecondaryIndexes = None,
      GlobalSecondaryIndexes = None, FieldName = None, TypeName = None, ApiId = None,
      DataSourceName = None, RequestMappingTemplate = None, ResponseMappingTemplate = None\<rparr>"

definition emptyContext :: TransformerContext where
  "emptyContext =
     \<lparr>resources = (\<lambda>n. None), nodeMap = (\<lambda>n. None), queryTypeName = ''Query'', stackMapping = []\<rparr>"

definition sampleTemplates :: templates where
  "sampleTemplates =
     \<lparr>print = (\<lambda>e. ''''), printBlock = (\<lambda>n e. ''## '' @ n),
      applyKeyExpressionForCompositeKey = (\<lambda>keys keyTypes n. NewLineNode)\<rparr>"

definition sampleSnippets :: authSnippets where
  "sampleSnippets =
     \<lparr>IsNotAuthProtectedVariable = ''isNotAuthProtected'',
      IsStaticGroupAuthorizedVariable = ''isStaticGroupAuthorized'',
      IsDynamicGroupAuthorizedVariable = ''isDynamicGroupAuthorized'',
      IsOwnerAuthorizedVariable = ''isOwnerAuthorized''\<rparr>"

subsection \<open>Types, directives and tables\<close>

text \<open>
  \<^verbatim>\<open>type Test @model @key(fields: ["email", "kind", "date"]) { email: String! kind: Int! date: AWSDateTime! }\<close>
\<close>

definition testKey3 :: DirectiveNode where
  "testKey3 =
     \<lparr>d_id = 0, d_name = ''key'',
      d_args = \<lparr>ka_name = None, ka_fields = [''email'', ''kind'', ''date''], ka_queryField = None\<rparr>\<rparr>"

definition testType3 :: ObjectTypeDefinitionNode where
  "testType3 =
     \<lparr>od_name = ''Test'',
      od_fields =
        [\<lparr>fd_name = ''email'', fd_arguments = [], fd_type = NonNullType (NamedType ''String'')\<rparr>,
         \<lparr>fd_name = ''kind'', fd_arguments = [], fd_type = NonNullType (NamedType ''Int'')\<rparr>,
         \<lparr>fd_name = ''date'', fd_arguments = [], fd_type = NonNullType (NamedType ''AWSDateTime'')\<rparr>],
      od_directives = [testKey3]\<rparr>"

text \<open>
  \<^verbatim>\<open>type Test @model @key(name: "byId", fields: ["id", "email"]) @key(fields: ["email"]) { id: ID! email: String! }\<close>,
  the table that \<^verbatim>\<open>@model\<close> makes for it, and the same table once the directive \<open>byId\<close>
  has been applied.
\<close>

definition testKeyById :: DirectiveNode where
  "testKeyById =
     \<lparr>d_id = 0, d_name = ''key'',
      d_args = \<lparr>ka_name = Some ''byId'', ka_fields = [''id'', ''email''], ka_queryField = None\<rparr>\<rparr>"

definition testKeyEmail :: DirectiveNode where
  "testKeyEmail =
     \<lparr>d_id = 1, d_name = ''key'',
      d_args = \<lparr>ka_name = None, ka_fields = [''email''], ka_queryField = None\<rparr>\<rparr>"

definition testTypeById :: ObjectTypeDefinitionNode where
  "testTypeById =
     \<lparr>od_name = ''Test'',
      od_fields =
        [\<lparr>fd_name = ''id'', fd_arguments = [], fd_type = NonNullType (NamedType ''ID'')\<rparr>,
         \<lparr>fd_name = ''email'', fd_arguments = [], fd_type = NonNullType (NamedType ''String'')\<rparr>],
      od_directives = [testKeyById, testKeyEmail]\<rparr>"

definition modelTable :: Resource where
  "modelTable =
     emptyResource\<lparr>
       KeySchema := Some [\<lparr>ks_AttributeName = Some ''id'', ks_KeyType = ''HASH''\<rparr>],
       AttributeDefinitions := Some [\<lparr>ad_AttributeName = ''id'', ad_AttributeType = ''S''\<rparr>]\<rparr>"

definition ctxModel :: TransformerContext where
  "ctxModel = setResource emptyContext ''TestTable'' modelTable"

definition tableById :: Resource where
  "tableById =
     modelTable\<lparr>
       GlobalSecondaryIndexes :=
         Some [\<lparr>ix_IndexName = Some ''byId'',
                ix_KeySchema = [\<lparr>ks_AttributeName = Some ''id'', ks_KeyType = ''HASH''\<rparr>,
                                \<lparr>ks_AttributeName = Some ''email'', ks_KeyType = ''RANGE''\<rparr>],
                ix_ProjectionType = ''ALL'',
                ix_ProvisionedThroughput = Some (provisionedThroughput sampleCommon)\<rparr>],
       AttributeDefinitions :=
         Some [\<lparr>ad_AttributeName = ''id'', ad_AttributeType = ''S''\<rparr>,
               \<lparr>ad_AttributeName = ''email'', ad_AttributeType = ''S''\<rparr>]\<rparr>"

definition ctxById :: TransformerContext where
  "ctxById = setResource ctxModel ''TestTable'' tableById"

definition tableByIdRekeyed :: Resource where
  "tableByIdRekeyed =
     tableById\<lparr>
       KeySchema := Some [\<lparr>ks_AttributeName = Some ''email'', ks_KeyType = ''HASH''\<rparr>],
       AttributeDefinitions := Some [\<lparr>ad_AttributeName = ''email'', ad_AttributeType = ''S''\<rparr>]\<rparr>"



text \<open>\<^verbatim>\<open>@key(fields: ["nope"])\<close> and \<^verbatim>\<open>@key(fields: [])\<close> on the type \<open>testType3\<close>.\<close>

definition testKeyMissing :: DirectiveNode where
  "testKeyMissing =
     \<lparr>d_id = 0, d_name = ''key'',
      d_args = \<lparr>ka_name = None, ka_fields = [''nope''], ka_queryField = None\<rparr>\<rparr>"

definition testKeyEmpty :: DirectiveNode where
  "testKeyEmpty =
     \<lparr>d_id = 0, d_name = ''key'',
      d_args = \<lparr>ka_name = None, ka_fields = [], ka_queryField = None\<rparr>\<rparr>"

text \<open>
  \<^verbatim>\<open>type Test @model @key(fields: ["email", "kind"]) { email: String! kind: Int! date: AWSDateTime! }\<close>
  with the list resolver and the query field \<open>listTests\<close> that \<^verbatim>\<open>@model\<close> makes.
\<close>

definition testKey2 :: DirectiveNode where
  "testKey2 =
     \<lparr>d_id = 0, d_name = ''key'',
      d_args = \<lparr>ka_name = None, ka_fields = [''email'', ''kind''], ka_queryField = None\<rparr>\<rparr>"

definition listTestsField :: FieldDefinitionNode where
  "listTestsField =
     \<lparr>fd_name = ''listTests'',
      fd_arguments =
        [\<lparr>iv_name = ''filter'', iv_type = NamedType ''ModelTestFilterInput''\<rparr>,
         \<lparr>iv_name = ''limit'', iv_type = NamedType ''Int''\<rparr>,
         \<lparr>iv_name = ''nextToken'', iv_type = NamedType ''String''\<rparr>],
      fd_type = NamedType ''ModelTestConnection''\<rparr>"

definition testQuery :: ObjectTypeDefinitionNode where
  "testQuery = \<lparr>od_name = ''Query'', od_fields = [listTestsField], od_directives = []\<rparr>"

definition listTestResolver :: Resource where
  "listTestResolver = emptyResource\<lparr>FieldName := Some ''listTests'', TypeName := Some ''Query''\<rparr>"

definition ctxList :: TransformerContext where
  "ctxList =
     putType (setResource ctxModel ''ListTestResolver'' listTestResolver)
       (ObjectTypeDefinition testQuery)"

text \<open>
  \<^verbatim>\<open>type Test @model @key(name: "dup", fields: ["email", "email"]) { id: ID! email: String! }\<close>
  and the table of \<^verbatim>\<open>@model\<close> once the directive has been applied.
\<close>

definition testKeyDup :: DirectiveNode where
  "testKeyDup =
     \<lparr>d_id = 0, d_name = ''key'',
      d_args = \<lparr>ka_name = Some ''dup'', ka_fields = [''email'', ''email''], ka_queryField = None\<rparr>\<rparr>"

definition testTypeDup :: ObjectTypeDefinitionNode where
  "testTypeDup =
     \<lparr>od_name = ''Test'',
      od_fields =
        [\<lparr>fd_name = ''id'', fd_arguments = [], fd_type = NonNullType (NamedType ''ID'')\<rparr>,
         \<lparr>fd_name = ''email'', fd_arguments = [], fd_type = NonNullType (NamedType ''String'')\<rparr>],
      od_directives = [testKeyDup]\<rparr>"

definition tableDup :: Resource where
  "tableDup =
     modelTable\<lparr>
       GlobalSecondaryIndexes :=
         Some [\<lparr>ix_IndexName = Some ''dup'',
                ix_KeySchema = [\<lparr>ks_AttributeName = Some ''email'', ks_KeyType = ''HASH''\<rparr>,
                                \<lparr>ks_AttributeName = Some ''email'', ks_KeyType = ''RANGE''\<rparr>],
                ix_ProjectionType = ''ALL'',
                ix_ProvisionedThroughput = Some (provisionedThroughput sampleCommon)\<rparr>],
       AttributeDefinitions :=
         Some [\<lparr>ad_AttributeName = ''id'', ad_AttributeType = ''S''\<rparr>,
               \<lparr>ad_AttributeName = ''email'', ad_AttributeType = ''S''\<rparr>,
               \<lparr>ad_AttributeName = ''email'', ad_AttributeType = ''S''\<rparr>]\<rparr>"
section \<open>Properties of the reference maps\<close>

subsection \<open>Merging\<close>

lemma mergeKey_error: "mergeKey b k a = Inl e \<Longrightarrow> e = TypeError"
  by (auto simp: mergeKey_def split: option.splits if_splits)

lemma key_present: "k \<in> set (map fst a) \<longleftrightarrow> map_of a k \<noteq> None"
  by (simp add: map_of_eq_None_iff)

lemma mergeKey_raises:
  "(\<exists>e. mergeKey b k a = Inl e) \<longleftrightarrow> k \<in> set inheritedProperties \<and> k \<notin> set (map fst a)"
  unfolding key_present by (auto simp: mergeKey_def split: option.splits)

lemma mergeKey_returns:
  assumes "mergeKey b k a = Inr a'"
  shows "map_of a' = (map_of a)(k \<mapsto> valueAt a k @ valueAt b k)"
    and "set (map fst a') = insert k (set (map fst a))"
proof -
  from assms obtain v where a': "a' = AList.update k v a"
    by (auto simp: mergeKey_def split: option.splits if_splits)
  show "map_of a' = (map_of a)(k \<mapsto> valueAt a k @ valueAt b k)"
    using assms
    by (auto simp: mergeKey_def valueAt_def AList.update_conv' split: option.splits if_splits)
  show "set (map fst a') = insert k (set (map fst a))"
    unfolding a' by (simp add: AList.dom_update)
qed

lemma mergeKeys_error: "mergeKeys b ks a = Inl e \<Longrightarrow> e = TypeError"
  by (induction ks arbitrary: a) (auto split: sum.splits dest: mergeKey_error)

lemma mergeKeys_raises:
  "(\<exists>e. mergeKeys b ks a = Inl e) \<longleftrightarrow>
   (\<exists>k. k \<in> set ks \<and> k \<in> set inheritedProperties \<and> k \<notin> set (map fst a))"
proof (induction ks arbitrary: a)
  case Nil
  show ?case by simp
next
  case (Cons x ks)
  show ?case
  proof (cases "mergeKey b x a")
    case (Inl e)
    then have "x \<in> set inheritedProperties \<and> x \<notin> set (map fst a)"
      using mergeKey_raises[of b x a] by blast
    with Inl show ?thesis by auto
  next
    case (Inr a')
    then have n: "\<not> (x \<in> set inheritedProperties \<and> x \<notin> set (map fst a))"
      using mergeKey_raises[of b x a] by auto
    have k: "set (map fst a') = insert x (set (map fst a))" using Inr by (rule mergeKey_returns)
    have "(\<exists>e. mergeKeys b (x # ks) a = Inl e) \<longleftrightarrow> (\<exists>e. mergeKeys b ks a' = Inl e)"
      using Inr by simp
    also have "\<dots> \<longleftrightarrow> (\<exists>k. k \<in> set ks \<and> k \<in> set inheritedProperties \<and> k \<notin> set (map fst a'))"
      by (rule Cons.IH)
    also have "\<dots> \<longleftrightarrow> (\<exists>k. k \<in> set (x # ks) \<and> k \<in> set inheritedProperties \<and> k \<notin> set (map fst a))"
      unfolding k using n by auto
    finally show ?thesis .
  qed
qed

lemma mergeKeys_value:
  "distinct ks \<Longrightarrow> mergeKeys b ks a = Inr m \<Longrightarrow>
   map_of m k = (if k \<in> set ks then Some (valueAt a k @ valueAt b k) else map_of a k)"
proof (induction ks arbitrary: a)
  case Nil
  then show ?case by simp
next
  case (Cons x ks)
  from Cons.prems(2) obtain a' where a': "mergeKey b x a = Inr a'" and m: "mergeKeys b ks a' = Inr m"
    by (auto split: sum.splits)
  from Cons.prems(1) have x: "x \<notin> set ks" and d: "distinct ks" by simp_all
  have v: "map_of a' = (map_of a)(x \<mapsto> valueAt a x @ valueAt b x)" using a' by (rule mergeKey_returns)
  have ih: "map_of m k = (if k \<in> set ks then Some (valueAt a' k @ valueAt b k) else map_of a' k)"
    by (rule Cons.IH[OF d m])
  show ?case
  proof (cases "k = x")
    case True
    with ih x v show ?thesis by simp
  next
    case False
    then have "valueAt a' k = valueAt a k" by (simp add: valueAt_def v)
    with ih False v show ?thesis by simp
  qed
qed

text \<open>
  The merge raises exactly when the second map has a key that \<^verbatim>\<open>Object.prototype\<close>
  defines and the first map does not hold; when it returns, the value at every key is
  the list of the first map followed by the list of the second (the keys of an object
  are distinct).
\<close>

lemma mergeReferenceMaps_error: "mergeReferenceMaps a b = Inl e \<Longrightarrow> e = TypeError"
  unfolding mergeReferenceMaps_def by (rule mergeKeys_error)

lemma mergeReferenceMaps_raises:
  "(\<exists>e. mergeReferenceMaps a b = Inl e) \<longleftrightarrow>
   (\<exists>k. k \<in> set (map fst b) \<and> k \<in> set inheritedProperties \<and> k \<notin> set (map fst a))"
  unfolding mergeReferenceMaps_def by (rule mergeKeys_raises)

lemma mergeReferenceMaps_value:
  assumes "distinct (map fst b)" and "mergeReferenceMaps a b = Inr m"
  shows "valueAt m k = valueAt a k @ valueAt b k"
proof (cases "k \<in> set (map fst b)")
  case True
  with mergeKeys_value[OF assms(1) assms(2)[unfolded mergeReferenceMaps_def], of k]
  show ?thesis by (simp add: valueAt_def[of m])
next
  case False
  then have "valueAt b k = []" by (simp add: valueAt_def map_of_eq_None_iff[THEN iffD2])
  with False mergeKeys_value[OF assms(1) assms(2)[unfolded mergeReferenceMaps_def], of k]
  show ?thesis by (simp add: valueAt_def[of m] valueAt_def[of a])
qed

text \<open>
  C6. The merge of two reference maps is to hold, at every key of either, the list of
  the first map followed by the list of the second, and the empty map is to be its
  identity. At a key that \<^verbatim>\<open>Object.prototype\<close> defines and the first map does not hold
  the code raises \<^verbatim>\<open>TypeError\<close> instead: merging \<^verbatim>\<open>{ constructor: [["Resources", "Foo"]] }\<close>
  into the empty map, or a map with the key \<^verbatim>\<open>toString\<close> into one without it, returns
  no map, while the key \<^verbatim>\<open>Foo\<close> is merged as described.
\<close>

theorem mergeReferenceMaps_raises_on_inherited_key:
  "mergeReferenceMaps [] [(''constructor'', [[''Resources'', ''Foo'']])] = Inl TypeError
   \<and> mergeReferenceMaps [(''Foo'', [[''Resources'', ''Bar'']])] [(''toString'', [[''Outputs'', ''Baz'']])]
       = Inl TypeError
   \<and> mergeReferenceMaps [(''Foo'', [[''Resources'', ''Bar'']])] [(''Foo'', [[''Outputs'', ''Baz'']])]
       = Inr [(''Foo'', [[''Resources'', ''Bar''], [''Outputs'', ''Baz'']])]"
  by (simp add: mergeReferenceMaps_def mergeKey_def valueAt_def inheritedProperties_def)

subsection \<open>The walk\<close>

lemma walk_error:
  "walk t path = Inl e \<Longrightarrow> e = TypeError"
  "walkKeys fs path acc = Inl e \<Longrightarrow> e = TypeError"
  "walkItems xs i path acc = Inl e \<Longrightarrow> e = TypeError"
  by (induction t path and fs path acc and xs i path acc rule: walk_walkKeys_walkItems.induct)
     (auto split: if_splits sum.splits dest: mergeReferenceMaps_error)

text \<open>
  C7. The walk is to record every reference under the referenced name, at the path of
  its node. For the tree with a reference to \<open>Foo\<close> at \<^verbatim>\<open>Resources.Foo.Properties.Bar\<close> it
  returns \<^verbatim>\<open>{ "Foo": [["Resources", "Foo", "Properties", "Bar"]] }\<close>. With a reference to
  the name \<^verbatim>\<open>constructor\<close> at the same place, the merge into the map of the enclosing
  object raises \<^verbatim>\<open>TypeError\<close>; with a property \<^verbatim>\<open>null\<close> beside the reference to \<open>Foo\<close>, the
  walk raises \<^verbatim>\<open>TypeError\<close> on reading \<^verbatim>\<open>null["Ref"]\<close>. In both cases no reference is
  recorded.
\<close>

theorem walk_raises_on_inherited_name_and_null:
  "getTemplateReferences (referenceAtBar ''Foo'')
       = Inr [(''Foo'', [[''Resources'', ''Foo'', ''Properties'', ''Bar'']])]
   \<and> getTemplateReferences (referenceAtBar ''constructor'') = Inl TypeError
   \<and> getTemplateReferences (referenceBesideNull ''Foo'') = Inl TypeError"
  by (simp add: getTemplateReferences_def referenceAtBar_def referenceBesideNull_def getProp_def
      mergeReferenceMaps_def mergeKey_def valueAt_def inheritedProperties_def)

section \<open>Properties of the @key transformer\<close>

subsection \<open>Index structures\<close>



lemma attributeDefinitions_three:
  assumes "3 \<le> length (ka_fields args)"
  shows "attributeDefinitions cm args def ctx =
     (case fieldAttribute cm def ctx (Some (hd (ka_fields args))) of
        Inl e \<Rightarrow> Inl e
      | Inr hashDef \<Rightarrow> Inr [hashDef, \<lparr>ad_AttributeName = condenseRangeKey (tl (ka_fields args)), ad_AttributeType = ''S''\<rparr>])"
proof -
  have d: "drop 1 (ka_fields args) = tl (ka_fields args)" by (simp add: drop_Suc)
  have h: "jsIndex (ka_fields args) 0 = Some (hd (ka_fields args))"
    using assms by (cases "ka_fields args") (auto simp: jsIndex_def)
  show ?thesis using assms unfolding attributeDefinitions_def d h by simp
qed

lemma fieldAttribute_name:
  "fieldAttribute cm def ctx (Some n) = Inr a \<Longrightarrow> ad_AttributeName a = n"
  by (auto simp: fieldAttribute_def split: option.splits sum.splits)

text \<open>
  C1. For a \<^verbatim>\<open>@key\<close> directive with at least three fields \<open>f0, f1, ..., fn\<close> the derived
  key schema is \<open>[(f0, HASH), (f1#...#fn, RANGE)]\<close>, the range attribute being the tail
  fields joined with \<open>#\<close>; the derived attribute definitions, which exist exactly when
  \<open>f0\<close> is a field of the type whose attribute type can be told, are two: one for \<open>f0\<close>
  and one for the joined name, of type \<open>S\<close> whatever the types of the tail fields.
\<close>

theorem primary_key_condensed_range:
  assumes "3 \<le> length (ka_fields (d_args directive))"
  shows "keySchema (d_args directive) =
           [\<lparr>ks_AttributeName = Some (hd (ka_fields (d_args directive))), ks_KeyType = ''HASH''\<rparr>,
            \<lparr>ks_AttributeName = Some (join ''#'' (tl (ka_fields (d_args directive)))),
             ks_KeyType = ''RANGE''\<rparr>]
       \<and> (\<forall>attrDefs. attributeDefinitions cm (d_args directive) def ctx = Inr attrDefs \<longrightarrow>
             length attrDefs = 2
             \<and> ad_AttributeName (attrDefs ! 0) = hd (ka_fields (d_args directive))
             \<and> attrDefs ! 1 = \<lparr>ad_AttributeName = join ''#'' (tl (ka_fields (d_args directive))),
                                ad_AttributeType = ''S''\<rparr>)
       \<and> ((\<exists>attrDefs. attributeDefinitions cm (d_args directive) def ctx = Inr attrDefs) \<longleftrightarrow>
            (\<exists>f t. fieldMap def (hd (ka_fields (d_args directive))) = Some f
                  \<and> attributeTypeFromType cm (fd_type f) ctx = Inr t))"
proof -
  let ?fs = "ka_fields (d_args directive)"
  have ks: "keySchema (d_args directive) =
           [\<lparr>ks_AttributeName = Some (hd ?fs), ks_KeyType = ''HASH''\<rparr>,
            \<lparr>ks_AttributeName = Some (join ''#'' (tl ?fs)), ks_KeyType = ''RANGE''\<rparr>]"
    using assms by (cases ?fs) (auto simp: keySchema_def jsIndex_def condenseRangeKey_def drop_Suc)
  note ad = attributeDefinitions_three[OF assms, of cm "def" ctx]
  have a: "\<forall>attrDefs. attributeDefinitions cm (d_args directive) def ctx = Inr attrDefs \<longrightarrow>
             length attrDefs = 2
             \<and> ad_AttributeName (attrDefs ! 0) = hd ?fs
             \<and> attrDefs ! 1 = \<lparr>ad_AttributeName = join ''#'' (tl ?fs), ad_AttributeType = ''S''\<rparr>"
    unfolding ad by (auto simp: condenseRangeKey_def fieldAttribute_name split: sum.splits)
  have b: "(\<exists>attrDefs. attributeDefinitions cm (d_args directive) def ctx = Inr attrDefs) \<longleftrightarrow>
            (\<exists>f t. fieldMap def (hd ?fs) = Some f \<and> attributeTypeFromType cm (fd_type f) ctx = Inr t)"
    unfolding ad by (auto simp: fieldAttribute_def split: sum.splits option.splits)
  from ks a b show ?thesis by blast
qed


lemmas model_defs = updateIndexStructures_def isPrimaryKey_def truthyString_def
  appendSecondaryIndex_def replacePrimaryKey_def attributeDefinitions_def fieldAttribute_def
  fieldMap_def attributeTypeFromType_def getType_def getResource_def setResource_def
  keySchema_def condenseRangeKey_def jsIndex_def primaryPartitionKeyName_def getPrimaryKey_def
  firstAttributeName_def append_js_def pushMissing_def removeExistingKey_def



theorem primary_key_condensed_range_witness:
  "3 \<le> length (ka_fields (d_args testKey3))
   \<and> keySchema (d_args testKey3) =
       [\<lparr>ks_AttributeName = Some ''email'', ks_KeyType = ''HASH''\<rparr>,
        \<lparr>ks_AttributeName = Some ''kind#date'', ks_KeyType = ''RANGE''\<rparr>]
   \<and> attributeDefinitions sampleCommon (d_args testKey3) testType3 emptyContext =
       Inr [\<lparr>ad_AttributeName = ''email'', ad_AttributeType = ''S''\<rparr>,
            \<lparr>ad_AttributeName = ''kind#date'', ad_AttributeType = ''S''\<rparr>]"
proof -
  have h: "3 \<le> length (ka_fields (d_args testKey3))" by (simp add: testKey3_def)
  have a: "attributeDefinitions sampleCommon (d_args testKey3) testType3 emptyContext =
       Inr [\<lparr>ad_AttributeName = ''email'', ad_AttributeType = ''S''\<rparr>,
            \<lparr>ad_AttributeName = ''kind#date'', ad_AttributeType = ''S''\<rparr>]"
    by (simp add: sampleCommon_def sampleAttributeType_def emptyContext_def emptyResource_def testKey3_def testType3_def model_defs)
  from primary_key_condensed_range[OF h, of sampleCommon testType3 emptyContext]
  have "keySchema (d_args testKey3) =
           [\<lparr>ks_AttributeName = Some (hd (ka_fields (d_args testKey3))), ks_KeyType = ''HASH''\<rparr>,
            \<lparr>ks_AttributeName = Some (join ''#'' (tl (ka_fields (d_args testKey3)))),
             ks_KeyType = ''RANGE''\<rparr>]" by blast
  then have "keySchema (d_args testKey3) =
       [\<lparr>ks_AttributeName = Some ''email'', ks_KeyType = ''HASH''\<rparr>,
        \<lparr>ks_AttributeName = Some ''kind#date'', ks_KeyType = ''RANGE''\<rparr>]"
    by (simp add: testKey3_def)
  with h a show ?thesis by blast
qed




text \<open>
  C3. Replacing the primary key is to remove the attribute definitions of the old key
  only where no remaining key schema references them. On
  \<^verbatim>\<open>type Test @model @key(name: "byId", fields: ["id", "email"]) @key(fields: ["email"]) { id: ID! email: String! }\<close>
  both directives pass the validation. The first appends the index \<open>byId\<close> on \<open>id\<close> and
  \<open>email\<close>; the second replaces the key schema \<open>id\<close> by \<open>email\<close> and removes the
  attribute definition of \<open>id\<close>, which the key schema of the index \<open>byId\<close> still
  references.
\<close>

theorem primary_key_prunes_referenced_attribute:
  "validate sampleCommon testTypeById testKeyById ctxModel = None
   \<and> updateIndexStructures sampleCommon testTypeById testKeyById ctxModel = (ctxById, None)
   \<and> validate sampleCommon testTypeById testKeyEmail ctxById = None
   \<and> isPrimaryKey testKeyEmail
   \<and> getResource ctxById (ModelTableResourceID sampleCommon (od_name testTypeById)) = Some tableById
   \<and> updateIndexStructures sampleCommon testTypeById testKeyEmail ctxById
       = (setResource ctxById ''TestTable'' tableByIdRekeyed, None)
   \<and> KeySchema tableByIdRekeyed = Some (keySchema (d_args testKeyEmail))
   \<and> Some ''id'' \<in> set (map ks_AttributeName (listOf (KeySchema tableById)))
   \<and> ''id'' \<in> set (attributeNames tableById)
   \<and> Some ''id'' \<in> set (map ks_AttributeName (secondaryKeyElements tableByIdRekeyed))
   \<and> ''id'' \<notin> set (attributeNames tableByIdRekeyed)"
  by (simp add: sampleCommon_def sampleAttributeType_def emptyContext_def emptyResource_def
      modelTable_def ctxModel_def testKeyById_def testKeyEmail_def testTypeById_def tableById_def
      ctxById_def tableByIdRekeyed_def model_defs Let_def listOf_def attributeNames_def
      secondaryKeyElements_def validate_def validateField_def keyDirectives_def)

text \<open>
  C5. After each application of a \<^verbatim>\<open>@key\<close> directive the attribute definitions are to
  hold exactly one entry per attribute name that a key schema of the table references.
  The table \<open>tableById\<close> of the schema above satisfies this, and after the primary key
  is replaced it does not: the index \<open>byId\<close> references \<open>id\<close>, which is no longer
  defined. And on
  \<^verbatim>\<open>type Test @model @key(name: "dup", fields: ["email", "email"]) { id: ID! email: String! }\<close>
  the directive passes the validation and leaves two attribute definitions of \<open>email\<close>.
\<close>

theorem attribute_definitions_lose_referenced_name:
  "getResource ctxById (ModelTableResourceID sampleCommon (od_name testTypeById)) = Some tableById
   \<and> attributesMatchKeys tableById
   \<and> validate sampleCommon testTypeById testKeyEmail ctxById = None
   \<and> updateIndexStructures sampleCommon testTypeById testKeyEmail ctxById
       = (setResource ctxById ''TestTable'' tableByIdRekeyed, None)
   \<and> getResource (setResource ctxById ''TestTable'' tableByIdRekeyed)
        (ModelTableResourceID sampleCommon (od_name testTypeById)) = Some tableByIdRekeyed
   \<and> \<not> attributesMatchKeys tableByIdRekeyed
   \<and> getResource ctxModel (ModelTableResourceID sampleCommon (od_name testTypeDup)) = Some modelTable
   \<and> attributesMatchKeys modelTable
   \<and> validate sampleCommon testTypeDup testKeyDup ctxModel = None
   \<and> updateIndexStructures sampleCommon testTypeDup testKeyDup ctxModel
       = (setResource ctxModel ''TestTable'' tableDup, None)
   \<and> getResource (setResource ctxModel ''TestTable'' tableDup)
        (ModelTableResourceID sampleCommon (od_name testTypeDup)) = Some tableDup
   \<and> \<not> distinct (attributeNames tableDup)"
  by (simp add: testKeyDup_def testTypeDup_def tableDup_def sampleCommon_def sampleAttributeType_def
      emptyContext_def emptyResource_def modelTable_def ctxModel_def testKeyById_def
      testKeyEmail_def testTypeById_def tableById_def ctxById_def tableByIdRekeyed_def model_defs
      Let_def listOf_def attributeNames_def secondaryKeyElements_def attributesMatchKeys_def
      keyElements_def validate_def validateField_def keyDirectives_def)

subsection \<open>Validation comes first\<close>

lemma andThen_error: "andThen (ctx, Some e) f = (ctx, Some e)"
  by (simp add: andThen_def)

lemma andThen_cases:
  assumes "andThen r f = (c, Some e)"
  shows "r = (c, Some e) \<or> (\<exists>c1. r = (c1, None) \<and> f c1 = (c, Some e))"
  using assms by (cases r) (auto simp: andThen_def split: option.splits)

lemma attributeDefinitions_empty:
  "ka_fields args = [] \<Longrightarrow> attributeDefinitions cm args def ctx = Inl TypeError"
  by (simp add: attributeDefinitions_def fieldAttribute_def jsIndex_def)

lemma updateIndexStructures_empty:
  "ka_fields (d_args directive) = [] \<Longrightarrow> updateIndexStructures cm def directive ctx = (ctx, Some TypeError)"
  by (simp add: updateIndexStructures_def replacePrimaryKey_def appendSecondaryIndex_def
      attributeDefinitions_empty Let_def)

lemma object_empty:
  assumes "ka_fields (d_args directive) = []"
  shows "\<exists>e. object tp cm def directive ctx = (ctx, Some e)"
proof (cases "validate cm def directive ctx")
  case None
  then show ?thesis
    by (simp add: object_def updateIndexStructures_empty[OF assms] andThen_error)
next
  case (Some e)
  then show ?thesis by (simp add: object_def)
qed

lemma traverse_error:
  "traverse f xs = Inl e \<Longrightarrow> \<exists>x \<in> set xs. f x = Inl e"
  by (induction xs) (auto split: sum.splits)

lemma keyFieldType_error: "keyFieldType def k = Inl e \<Longrightarrow> e = TypeError"
  by (auto simp: keyFieldType_def split: option.splits)

lemma requiredKeyArgument_error: "requiredKeyArgument def k = Inl e \<Longrightarrow> e = TypeError"
  by (auto simp: requiredKeyArgument_def split: sum.splits dest: keyFieldType_error)

lemma queryKeyArgument_error: "queryKeyArgument cm def args i = Inl e \<Longrightarrow> e = TypeError"
  by (auto simp: queryKeyArgument_def split: sum.splits dest: keyFieldType_error)

lemma listArgumentsLoop_error: "listArgumentsLoop cm def args n acc = Inl e \<Longrightarrow> e = TypeError"
  by (induction n arbitrary: acc) (auto split: sum.splits dest: keyFieldType_error)

lemma updateGetField_error: "updateGetField cm def directive ctx = (c, Some e) \<Longrightarrow> e = TypeError"
  by (auto simp: updateGetField_def split: option.splits if_splits sum.splits
      dest!: traverse_error dest: requiredKeyArgument_error)

lemma updateListField_error: "updateListField cm def directive ctx = (c, Some e) \<Longrightarrow> e = TypeError"
  by (auto simp: updateListField_def split: option.splits if_splits sum.splits
      dest: listArgumentsLoop_error)

lemma ensureQueryField_error: "ensureQueryField cm def directive ctx = (c, Some e) \<Longrightarrow> e = TypeError"
  by (auto simp: ensureQueryField_def split: option.splits if_splits sum.splits
      dest!: traverse_error dest: queryKeyArgument_error)

lemma updateInputObjects_error: "updateInputObjects cm def directive ctx = (c, Some e) \<Longrightarrow> e = TypeError"
  by (auto simp: updateInputObjects_def Let_def replaceDeleteInput_def primaryIdFields_def
      split: option.splits if_splits sum.splits
      dest!: traverse_error dest: requiredKeyArgument_error)

lemma updateSchema_error: "updateSchema cm def directive ctx = (c, Some e) \<Longrightarrow> e = TypeError"
  unfolding updateSchema_def updateQueryFields_def
  by (auto dest!: andThen_cases
      dest: updateGetField_error updateListField_error ensureQueryField_error updateInputObjects_error)

lemma addKeyConditionInputs_error:
  "addKeyConditionInputs cm def directive ctx = (c, Some e) \<Longrightarrow> e = TypeError"
  by (auto simp: addKeyConditionInputs_def Let_def split: option.splits if_splits sum.splits
      dest: keyFieldType_error)

lemma attributeTypeFromType_error:
  "attributeTypeFromType cm t ctx = Inl e \<Longrightarrow> attributeTypeFromScalar cm t = Inl e"
  by (auto simp: attributeTypeFromType_def split: option.splits TypeDefinition.splits)

lemma modelObjectKey_error:
  assumes "modelObjectKey args m = Inl e"
  shows "ka_fields args = []"
proof -
  from assms have "\<not> 2 < length (ka_fields args)" "length (ka_fields args) \<noteq> 2"
    "length (ka_fields args) \<noteq> 1"
    by (auto simp: modelObjectKey_def Let_def split: if_splits)
  then have "length (ka_fields args) = 0" by linarith
  then show ?thesis by simp
qed

lemma setKeySnippet_error: "setKeySnippet tp cm directive m = Inl e \<Longrightarrow> ka_fields (d_args directive) = []"
  by (auto simp: setKeySnippet_def split: sum.splits dest: modelObjectKey_error)

lemma setQuerySnippet_error:
  "setQuerySnippet tp cm def directive ctx = Inl e \<Longrightarrow>
     e = TypeError \<or> (\<exists>t. attributeTypeFromScalar cm t = Inl e)"
proof -
  assume "setQuerySnippet tp cm def directive ctx = Inl e"
  then have "traverse (\<lambda>k. case keyFieldType def k of
                               Inl e \<Rightarrow> Inl e
                             | Inr t \<Rightarrow> attributeTypeFromType cm t ctx)
               (ka_fields (d_args directive)) = Inl e"
    by (auto simp: setQuerySnippet_def Let_def split: sum.splits)
  from traverse_error[OF this] obtain k where
    k: "(case keyFieldType def k of Inl e \<Rightarrow> Inl e | Inr t \<Rightarrow> attributeTypeFromType cm t ctx) = Inl e"
    by blast
  show ?thesis
  proof (cases "keyFieldType def k")
    case (Inl x)
    with k have "keyFieldType def k = Inl e" by simp
    then show ?thesis by (auto dest: keyFieldType_error)
  next
    case (Inr t)
    with k have "attributeTypeFromType cm t ctx = Inl e" by simp
    then show ?thesis by (auto dest: attributeTypeFromType_error)
  qed
qed

lemma prependSnippet_error:
  "prependSnippet rid snippet ctx = (c, Some e) \<Longrightarrow> snippet = Inl e"
  by (auto simp: prependSnippet_def split: option.splits sum.splits)

lemma printed_error: "printed tp x = Inl e \<Longrightarrow> x = Inl e"
  by (auto simp: printed_def split: sum.splits)

lemma updateResolvers_error:
  assumes "updateResolvers tp cm def directive ctx = (c, Some e)"
  shows "ka_fields (d_args directive) = [] \<or> e = TypeError \<or> (\<exists>t. attributeTypeFromScalar cm t = Inl e)"
proof (cases "isPrimaryKey directive")
  case True
  with assms show ?thesis
    unfolding updateResolvers_def
    by (auto dest!: andThen_cases prependSnippet_error printed_error
        dest: setKeySnippet_error setQuerySnippet_error)
next
  case False
  with assms show ?thesis
    unfolding updateResolvers_def makeQueryResolver_def
    by (auto simp: Let_def split: if_splits sum.splits dest: setQuerySnippet_error)
qed

lemma updateIndexStructures_error:
  assumes "updateIndexStructures cm def directive ctx = (c, Some e)"
  shows "c = ctx \<or> e = TypeError"
  using assms
  by (auto simp: updateIndexStructures_def replacePrimaryKey_def appendSecondaryIndex_def Let_def
      split: if_splits sum.splits option.splits prod.splits)

lemma updateIndexStructures_nonempty:
  assumes "updateIndexStructures cm def directive ctx = (c, None)"
  shows "ka_fields (d_args directive) \<noteq> []"
  using assms updateIndexStructures_empty[of directive cm "def" ctx] by auto

text \<open>
  C4. An application of \<^verbatim>\<open>@key\<close> that fails in \<^verbatim>\<open>validate\<close> (a second primary key, a
  repeated name, \<^verbatim>\<open>queryField\<close> on a primary key, a field that does not exist, is nullable
  or is not a scalar) fails with that error and the context it was given. An application
  with an empty field list fails too, with the context it was given. Whenever the
  application fails with an \<open>InvalidDirectiveError\<close>, the context is the one it was given
  (\<^verbatim>\<open>attributeTypeFromScalar\<close>, a parameter, is taken not to raise that error itself).
\<close>

theorem validation_error_before_mutation:
  "(validate cm def directive ctx = Some e \<longrightarrow> object tp cm def directive ctx = (ctx, Some e))
   \<and> (ka_fields (d_args directive) = [] \<longrightarrow> (\<exists>e'. object tp cm def directive ctx = (ctx, Some e')))
   \<and> ((\<forall>t m. attributeTypeFromScalar cm t \<noteq> Inl (InvalidDirectiveError m))
        \<and> object tp cm def directive ctx = (ctx', Some (InvalidDirectiveError msg))
       \<longrightarrow> ctx' = ctx)"
proof (intro conjI impI)
  assume "validate cm def directive ctx = Some e"
  then show "object tp cm def directive ctx = (ctx, Some e)" by (simp add: object_def)
next
  assume "ka_fields (d_args directive) = []"
  then show "\<exists>e'. object tp cm def directive ctx = (ctx, Some e')" by (rule object_empty)
next
  assume a: "(\<forall>t m. attributeTypeFromScalar cm t \<noteq> Inl (InvalidDirectiveError m))
        \<and> object tp cm def directive ctx = (ctx', Some (InvalidDirectiveError msg))"
  then have p: "\<And>t. attributeTypeFromScalar cm t \<noteq> Inl (InvalidDirectiveError msg)"
    and o: "object tp cm def directive ctx = (ctx', Some (InvalidDirectiveError msg))" by auto
  show "ctx' = ctx"
  proof (cases "validate cm def directive ctx")
    case (Some e)
    with o show ?thesis by (simp add: object_def)
  next
    case None
    with o have c: "andThen (andThen (andThen
            (updateIndexStructures cm def directive ctx)
            (updateSchema cm def directive))
            (updateResolvers tp cm def directive))
            (addKeyConditionInputs cm def directive) = (ctx', Some (InvalidDirectiveError msg))"
      by (simp add: object_def)
    from andThen_cases[OF c] show ?thesis
    proof
      assume c2: "andThen (andThen (updateIndexStructures cm def directive ctx)
            (updateSchema cm def directive)) (updateResolvers tp cm def directive)
          = (ctx', Some (InvalidDirectiveError msg))"
      from andThen_cases[OF c2] show ?thesis
      proof
        assume c3: "andThen (updateIndexStructures cm def directive ctx) (updateSchema cm def directive)
          = (ctx', Some (InvalidDirectiveError msg))"
        from andThen_cases[OF c3] show ?thesis
        proof
          assume "updateIndexStructures cm def directive ctx = (ctx', Some (InvalidDirectiveError msg))"
          from updateIndexStructures_error[OF this] show ?thesis by simp
        next
          assume "\<exists>c1. updateIndexStructures cm def directive ctx = (c1, None)
             \<and> updateSchema cm def directive c1 = (ctx', Some (InvalidDirectiveError msg))"
          then show ?thesis by (auto dest: updateSchema_error)
        qed
      next
        assume "\<exists>c1. andThen (updateIndexStructures cm def directive ctx) (updateSchema cm def directive)
             = (c1, None)
           \<and> updateResolvers tp cm def directive c1 = (ctx', Some (InvalidDirectiveError msg))"
        then obtain c1 where s: "andThen (updateIndexStructures cm def directive ctx)
               (updateSchema cm def directive) = (c1, None)"
          and r: "updateResolvers tp cm def directive c1 = (ctx', Some (InvalidDirectiveError msg))"
          by blast
        from s obtain c0 where "updateIndexStructures cm def directive ctx = (c0, None)"
          by (cases "updateIndexStructures cm def directive ctx")
             (auto simp: andThen_def split: option.splits)
        then have ne: "ka_fields (d_args directive) \<noteq> []" by (rule updateIndexStructures_nonempty)
        from updateResolvers_error[OF r] ne p show ?thesis by auto
      qed
    next
      assume "\<exists>c1. andThen (andThen (updateIndexStructures cm def directive ctx)
            (updateSchema cm def directive)) (updateResolvers tp cm def directive) = (c1, None)
          \<and> addKeyConditionInputs cm def directive c1 = (ctx', Some (InvalidDirectiveError msg))"
      then show ?thesis by (auto dest: addKeyConditionInputs_error)
    qed
  qed
qed

theorem validation_error_before_mutation_witness:
  "validate sampleCommon testType3 testKeyMissing ctxModel =
     Some (InvalidDirectiveError
       (''You cannot specify a non-existant field '' @ [CHR 0x27] @ ''nope'' @ [CHR 0x27]
        @ '' in @key '' @ [CHR 0x27] @ ''undefined'' @ [CHR 0x27] @ '' on type '' @ [CHR 0x27]
        @ ''Test'' @ [CHR 0x27] @ ''.''))
   \<and> object sampleTemplates sampleCommon testType3 testKeyMissing ctxModel =
       (ctxModel, Some (InvalidDirectiveError
         (''You cannot specify a non-existant field '' @ [CHR 0x27] @ ''nope'' @ [CHR 0x27]
          @ '' in @key '' @ [CHR 0x27] @ ''undefined'' @ [CHR 0x27] @ '' on type '' @ [CHR 0x27]
          @ ''Test'' @ [CHR 0x27] @ ''.'')))
   \<and> ka_fields (d_args testKeyEmpty) = []
   \<and> (\<exists>e'. object sampleTemplates sampleCommon testType3 testKeyEmpty ctxModel = (ctxModel, Some e'))
   \<and> (\<forall>t m. attributeTypeFromScalar sampleCommon t \<noteq> Inl (InvalidDirectiveError m))"
  (is "?V \<and> ?O \<and> ?E \<and> ?X \<and> ?P")
proof -
  have v: ?V
    by (simp add: sampleCommon_def sampleAttributeType_def emptyContext_def emptyResource_def modelTable_def ctxModel_def testKey3_def testType3_def testKeyMissing_def testKeyEmpty_def sampleTemplates_def validate_def Let_def truthyString_def keyDirectives_def
        validateField_def fieldMap_def interpolate_def)
  have e: ?E by (simp add: testKeyEmpty_def)
  have p: ?P by (simp add: sampleCommon_def sampleAttributeType_def Let_def)
  note t = validation_error_before_mutation[of sampleCommon testType3 _ ctxModel _ sampleTemplates]
  from t[of testKeyMissing] v have o: ?O by blast
  from t[of testKeyEmpty] e have x: ?X by blast
  from v o e x p show ?thesis by (intro conjI)
qed

subsection \<open>The list field\<close>

lemma listArgumentsLoop_ok:
  assumes "\<forall>i < k. keyFieldType def (ka_fields args ! i) = Inr (types ! i)"
  shows "listArgumentsLoop cm def args k acc =
           Inr (map (\<lambda>i. listKeyArgument cm args i (types ! i)) [0 ..< k] @ acc)"
  using assms
proof (induction k arbitrary: acc)
  case 0
  then show ?case by simp
next
  case (Suc k)
  then have t: "keyFieldType def (ka_fields args ! k) = Inr (types ! k)" by simp
  from Suc.prems have "\<forall>i < k. keyFieldType def (ka_fields args ! i) = Inr (types ! i)" by simp
  from Suc.IH[OF this] t show ?case by simp
qed

text \<open>
  C8, as amended. When a primary \<^verbatim>\<open>@key\<close> is applied, the list resolver of the type
  exists and names a field of the query type, and the key fields are fields of the type,
  the arguments of that query field get, in front of those it had and in the order of
  the key, one argument for each key field: of the named base type of the field, not
  wrapped as non-null, for every field but the last and for the only field of a key of
  one; of the key condition input type named after its base type for the last field of a
  longer key.
\<close>

theorem list_field_gets_key_arguments:
  assumes "isPrimaryKey directive"
    and "getResource ctx (DynamoDBListResolverResourceID cm (od_name def)) = Some listResolverResource"
    and "getQuery ctx = Some query"
    and "find (\<lambda>field. Some (fd_name field) = FieldName listResolverResource) (od_fields query)
           = Some listField"
    and "\<forall>i < length (ka_fields (d_args directive)).
           keyFieldType def (ka_fields (d_args directive) ! i) = Inr (types ! i)"
  shows "updateListField cm def directive ctx =
     (putType ctx (ObjectTypeDefinition
        (query\<lparr>od_fields :=
           replaceField
             (listField\<lparr>fd_arguments :=
                map (\<lambda>i. \<lparr>iv_name = ka_fields (d_args directive) ! i,
                           iv_type =
                             NamedType
                               (if i = length (ka_fields (d_args directive)) - 1
                                   \<and> length (ka_fields (d_args directive)) \<noteq> 1
                                then ModelKeyConditionInputTypeName cm (getBaseType (types ! i))
                                else getBaseType (types ! i))\<rparr>)
                    [0 ..< length (ka_fields (d_args directive))]
                @ fd_arguments listField\<rparr>)
             (od_fields query)\<rparr>)), None)"
proof -
  have m: "map (\<lambda>i. listKeyArgument cm (d_args directive) i (types ! i))
             [0 ..< length (ka_fields (d_args directive))]
         = map (\<lambda>i. \<lparr>iv_name = ka_fields (d_args directive) ! i,
                           iv_type =
                             NamedType
                               (if i = length (ka_fields (d_args directive)) - 1
                                   \<and> length (ka_fields (d_args directive)) \<noteq> 1
                                then ModelKeyConditionInputTypeName cm (getBaseType (types ! i))
                                else getBaseType (types ! i))\<rparr>)
                    [0 ..< length (ka_fields (d_args directive))]"
    by (rule map_cong) (auto simp: listKeyArgument_def makeInputValueDefinition_def makeNamedType_def)
  show ?thesis
    unfolding updateListField_def
    using assms(1-4) listArgumentsLoop_ok[OF assms(5), of cm "fd_arguments listField"]
    by (simp add: m)
qed

text \<open>
  C8 as stated fails: for the key \<open>[email, kind]\<close> the argument \<open>email\<close> of \<open>listTests\<close> has
  the type \<open>String\<close>, which is not a non-null type.
\<close>

theorem list_field_arguments_nullable_counterexample:
  "isPrimaryKey testKey2
   \<and> getResource ctxList (DynamoDBListResolverResourceID sampleCommon (od_name testType3))
       = Some listTestResolver
   \<and> updateListField sampleCommon testType3 testKey2 ctxList =
       (putType ctxList (ObjectTypeDefinition
          (testQuery\<lparr>od_fields :=
             [listTestsField\<lparr>fd_arguments :=
                [\<lparr>iv_name = ''email'', iv_type = NamedType ''String''\<rparr>,
                 \<lparr>iv_name = ''kind'', iv_type = NamedType ''ModelIntKeyConditionInput''\<rparr>,
                 \<lparr>iv_name = ''filter'', iv_type = NamedType ''ModelTestFilterInput''\<rparr>,
                 \<lparr>iv_name = ''limit'', iv_type = NamedType ''Int''\<rparr>,
                 \<lparr>iv_name = ''nextToken'', iv_type = NamedType ''String''\<rparr>]\<rparr>]\<rparr>)), None)
   \<and> \<not> isNonNullType (NamedType ''String'')
   \<and> NamedType ''String'' \<noteq> makeNonNullType (makeNamedType ''String'')"
  by (simp add: sampleCommon_def sampleAttributeType_def emptyContext_def emptyResource_def modelTable_def ctxModel_def testType3_def testKey2_def listTestsField_def testQuery_def listTestResolver_def ctxList_def updateListField_def isPrimaryKey_def truthyString_def getResource_def
      setResource_def putType_def getQuery_def typeDefinitionName_def keyFieldType_def
      listKeyArgument_def makeInputValueDefinition_def makeNamedType_def makeNonNullType_def
      replaceField_def numeral_2_eq_2)

theorem list_field_gets_key_arguments_witness:
  "isPrimaryKey testKey2
   \<and> getResource ctxList (DynamoDBListResolverResourceID sampleCommon (od_name testType3))
       = Some listTestResolver
   \<and> getQuery ctxList = Some testQuery
   \<and> find (\<lambda>field. Some (fd_name field) = FieldName listTestResolver) (od_fields testQuery)
       = Some listTestsField
   \<and> keyFieldType testType3 (ka_fields (d_args testKey2) ! 0) = Inr (NonNullType (NamedType ''String''))
   \<and> keyFieldType testType3 (ka_fields (d_args testKey2) ! 1) = Inr (NonNullType (NamedType ''Int''))
   \<and> updateListField sampleCommon testType3 testKey2 ctxList =
       (putType ctxList (ObjectTypeDefinition
          (testQuery\<lparr>od_fields :=
             [listTestsField\<lparr>fd_arguments :=
                [\<lparr>iv_name = ''email'', iv_type = NamedType ''String''\<rparr>,
                 \<lparr>iv_name = ''kind'', iv_type = NamedType ''ModelIntKeyConditionInput''\<rparr>,
                 \<lparr>iv_name = ''filter'', iv_type = NamedType ''ModelTestFilterInput''\<rparr>,
                 \<lparr>iv_name = ''limit'', iv_type = NamedType ''Int''\<rparr>,
                 \<lparr>iv_name = ''nextToken'', iv_type = NamedType ''String''\<rparr>]\<rparr>]\<rparr>)), None)"
  (is "?H1 \<and> ?H2 \<and> ?H3 \<and> ?H4 \<and> ?K0 \<and> ?K1 \<and> ?C")
proof -
  have h1: ?H1 by (simp add: sampleCommon_def sampleAttributeType_def emptyContext_def emptyResource_def modelTable_def ctxModel_def testType3_def testKey2_def listTestsField_def testQuery_def listTestResolver_def ctxList_def isPrimaryKey_def truthyString_def)
  have h2: ?H2 by (simp add: sampleCommon_def sampleAttributeType_def emptyContext_def emptyResource_def modelTable_def ctxModel_def testType3_def testKey2_def listTestsField_def testQuery_def listTestResolver_def ctxList_def getResource_def setResource_def putType_def)
  have h3: ?H3
    by (simp add: sampleCommon_def sampleAttributeType_def emptyContext_def emptyResource_def modelTable_def ctxModel_def testType3_def testKey2_def listTestsField_def testQuery_def listTestResolver_def ctxList_def getQuery_def setResource_def putType_def typeDefinitionName_def)
  have h4: ?H4 by (simp add: sampleCommon_def sampleAttributeType_def emptyContext_def emptyResource_def modelTable_def ctxModel_def testType3_def testKey2_def listTestsField_def testQuery_def listTestResolver_def ctxList_def)
  have k0: ?K0 by (simp add: sampleCommon_def sampleAttributeType_def emptyContext_def emptyResource_def modelTable_def ctxModel_def testType3_def testKey2_def listTestsField_def testQuery_def listTestResolver_def ctxList_def keyFieldType_def)
  have k1: ?K1 by (simp add: sampleCommon_def sampleAttributeType_def emptyContext_def emptyResource_def modelTable_def ctxModel_def testType3_def testKey2_def listTestsField_def testQuery_def listTestResolver_def ctxList_def keyFieldType_def)
  have h5: "\<forall>i < length (ka_fields (d_args testKey2)).
         keyFieldType testType3 (ka_fields (d_args testKey2) ! i)
           = Inr ([NonNullType (NamedType ''String''), NonNullType (NamedType ''Int'')] ! i)"
    using k0 k1 by (simp add: testKey2_def numeral_2_eq_2 less_Suc_eq)
  have "[0 ..< length (ka_fields (d_args testKey2))] = [0, 1]"
    by (simp add: testKey2_def numeral_2_eq_2 upt_rec)
  with list_field_gets_key_arguments[OF h1 h2 h3 h4 h5] have ?C
    by (simp add: sampleCommon_def sampleAttributeType_def emptyContext_def emptyResource_def modelTable_def ctxModel_def testType3_def testKey2_def listTestsField_def testQuery_def listTestResolver_def ctxList_def replaceField_def)
  with h1 h2 h3 h4 k0 k1 show ?thesis by (intro conjI)
qed

section \<open>Properties of the authorization check\<close>

text \<open>
  C9. The check for reads is a conditional on the negated disjunction of the four flags
  compared with \<open>true\<close>, whose body is the unauthorized termination. Run with any values of
  the variables, it lets the request through exactly when one of the four flags holds
  \<open>true\<close>, and ends it as unauthorized exactly when none does.
\<close>

theorem read_authorization_check:
  "throwIfUnauthorizedForReadOperations sn =
     IfNode
       (NotNode (ParensNode (OrNode
          [EqualsNode (ReferenceNode (IsNotAuthProtectedVariable sn)) (RawNode ''true''),
           EqualsNode (ReferenceNode (IsStaticGroupAuthorizedVariable sn)) (RawNode ''true''),
           EqualsNode (ReferenceNode (IsDynamicGroupAuthorizedVariable sn)) (RawNode ''true''),
           EqualsNode (ReferenceNode (IsOwnerAuthorizedVariable sn)) (RawNode ''true'')])))
       (RawNode ''$util.unauthorized()'') False
   \<and> (run env (throwIfUnauthorizedForReadOperations sn) = Permitted \<longleftrightarrow>
        env (IsNotAuthProtectedVariable sn) = Some True
        \<or> env (IsStaticGroupAuthorizedVariable sn) = Some True
        \<or> env (IsDynamicGroupAuthorizedVariable sn) = Some True
        \<or> env (IsOwnerAuthorizedVariable sn) = Some True)
   \<and> (run env (throwIfUnauthorizedForReadOperations sn) = Unauthorized \<longleftrightarrow>
        env (IsNotAuthProtectedVariable sn) \<noteq> Some True
        \<and> env (IsStaticGroupAuthorizedVariable sn) \<noteq> Some True
        \<and> env (IsDynamicGroupAuthorizedVariable sn) \<noteq> Some True
        \<and> env (IsOwnerAuthorizedVariable sn) \<noteq> Some True)"
  by (auto simp: throwIfUnauthorizedForReadOperations_def)

theorem read_authorization_check_witness:
  "run (\<lambda>n. if n = ''isOwnerAuthorized'' then Some True else None)
       (throwIfUnauthorizedForReadOperations sampleSnippets) = Permitted
   \<and> run (\<lambda>n. if n = ''isOwnerAuthorized'' then Some False else None)
       (throwIfUnauthorizedForReadOperations sampleSnippets) = Unauthorized"
  using read_authorization_check[of sampleSnippets "\<lambda>n. if n = ''isOwnerAuthorized'' then Some True else None"]
    read_authorization_check[of sampleSnippets "\<lambda>n. if n = ''isOwnerAuthorized'' then Some False else None"]
  by (simp add: sampleSnippets_def)

end
